theory Spec2Isabelle
  imports Complex_Main "HOL-Library.Sublist" "HOL-Library.AList"
begin

section \<open>Strings\<close>

text \<open>
  A JavaScript string is modelled as a \<^typ>\<open>string\<close>: a list of code units, here
  restricted to the code units below 256. The string methods the module uses are
  written out with their behaviour at the edges (a search that fails gives \<open>-1\<close>,
  \<open>substring\<close> clamps its arguments and swaps them when they are out of order).
\<close>

definition indexOf :: "string \<Rightarrow> char \<Rightarrow> int" where
  "indexOf s c = (if c \<in> set s then int (length (takeWhile (\<lambda>x. x \<noteq> c) s)) else - 1)"

definition substring :: "string \<Rightarrow> int \<Rightarrow> int \<Rightarrow> string" where
  "substring s start fin =
     (let n = int (length s);
          a = min (max start 0) n;
          b = min (max fin 0) n;
          lo = min a b;
          hi = max a b
      in take (nat (hi - lo)) (drop (nat lo) s))"

definition substringFrom :: "string \<Rightarrow> int \<Rightarrow> string" where
  "substringFrom s start = substring s start (int (length s))"

text \<open>
  \<open>toLowerCase\<close> on code units below 256: the letters \<open>A\<close> to \<open>Z\<close> (65 to 90) and
  the Latin-1 capitals (192 to 222, without the multiplication sign 215) move up by 32,
  which sets bit 5 of the code unit; every other code unit is kept.
\<close>

definition toLowerChar :: "char \<Rightarrow> char" where
  "toLowerChar c =
     (let n = (of_char c :: nat)
      in if (65 \<le> n \<and> n \<le> 90) \<or> (192 \<le> n \<and> n \<le> 222 \<and> n \<noteq> 215)
         then (case c of Char b0 b1 b2 b3 b4 b5 b6 b7 \<Rightarrow> Char b0 b1 b2 b3 b4 True b6 b7)
         else c)"

definition toLowerCase :: "string \<Rightarrow> string" where
  "toLowerCase s = map toLowerChar s"

fun includes_str :: "string \<Rightarrow> string \<Rightarrow> bool" where
  "includes_str [] k = (k = [])"
| "includes_str (c # cs) k = (prefix k (c # cs) \<or> includes_str cs k)"

definition startsWith :: "string \<Rightarrow> string \<Rightarrow> bool" where
  "startsWith s k = prefix k s"

definition endsWith :: "string \<Rightarrow> string \<Rightarrow> bool" where
  "endsWith s k = (length k \<le> length s \<and> drop (length s - length k) s = k)"

definition isWhiteSpace :: "char \<Rightarrow> bool" where
  "isWhiteSpace c = ((of_char c :: nat) \<in> {9, 10, 11, 12, 13, 32, 160})"

definition trim :: "string \<Rightarrow> string" where
  "trim s = rev (dropWhile isWhiteSpace (rev (dropWhile isWhiteSpace s)))"

section \<open>The media decoder\<close>

record parsed_url =
  mediaType :: string
  data :: string

text \<open>\<open>parseDataURL\<close> of \<open>ai.ts\<close>; \<open>None\<close> is the \<open>null\<close> it returns.\<close>

definition parseDataURL :: "string \<Rightarrow> parsed_url option" where
  "parseDataURL dataURL =
     (let commaIndex = indexOf dataURL (CHR '','');
          semicolonIndex = indexOf dataURL (CHR '';'')
      in if commaIndex \<le> 0 \<or> semicolonIndex \<le> 0 then None
         else
           let mt = substring dataURL 5 semicolonIndex;
               d = substringFrom dataURL (commaIndex + 1);
               mt' = (if mt = ''image/jpg'' then ''image/jpeg'' else mt)
           in Some \<lparr>mediaType = mt', data = d\<rparr>)"

section \<open>JavaScript values\<close>

text \<open>
  A number is an IEEE double: not-a-number, an infinity, or a finite value, modelled by
  the rational it denotes (doubles are rationals, and the module only tests, compares and
  forwards numbers; \<open>Fin 0\<close> stands for both zeros, which are both falsy).
\<close>

datatype jsnum = NaN | Fin rat | PosInf | NegInf

text \<open>
  What \<open>JSON.parse\<close> returns. An object is an association list holding each key once.
  A value that may be \<open>undefined\<close> (a property that is not there, an optional
  argument) is a \<^typ>\<open>'a option\<close>, \<open>None\<close> being \<open>undefined\<close>.
\<close>

datatype json =
    JNull
  | JBool bool
  | JNum jsnum
  | JStr string
  | JArr "json list"
  | JObj "(string \<times> json) list"

text \<open>
  A thrown value: \<open>Err m\<close> is an instance of \<open>Error\<close> (also \<open>TypeError\<close>,
  \<open>SyntaxError\<close>) with message \<open>m\<close>; \<open>NonErr\<close> is any other value a rejected promise
  may carry. A computation that may throw returns \<open>exn + 'a\<close>.
\<close>

datatype exn = Err string | NonErr

text \<open>The faults the engine itself raises, each a \<open>TypeError\<close> whose text the engine chooses.\<close>

datatype fault =
    ReadOfNull string
  | NotAFunction string
  | NoPrimitiveValue
  | AssignToPrimitive string

datatype content_part =
    DocumentPart string string
  | ImagePart string string
  | TextPart string

record claude_request =
  x_api_key :: string
  content :: "content_part list"

record http_response =
  status :: nat
  response_data :: json

datatype gemini_part = InlineData string string | TextOnly string

record gemini_request =
  key :: string
  parts :: "gemini_part list"

record fetch_response =
  ok :: bool
  json_body :: "exn + json"

datatype net_call = ClaudePost claude_request | GeminiFetch gemini_request

text \<open>
  Everything the module takes from outside itself: the built-in functions of the language
  that are not written out below, the texts of the engine's own errors, the three prompt
  templates (fixed texts of the module), the build-time backup key, and the two remote
  services, each a function from the request to the outcome of the call.
\<close>

record jsenv =
  StrNumericLiteral :: "string \<Rightarrow> jsnum"
  NumberToString :: "jsnum \<Rightarrow> string"
  DateParse :: "string \<Rightarrow> jsnum"
  JSON_parse :: "string \<Rightarrow> string + json"
  faultMessage :: "fault \<Rightarrow> string"
  timesheetPrompt :: string
  paystubPrompt :: string
  statSchedulePrompt :: string
  ENV_GEMINI_KEY :: string
  CapacitorHttp_post :: "claude_request \<Rightarrow> exn + http_response"
  fetch :: "gemini_request \<Rightarrow> exn + fetch_response"

definition bindE :: "exn + 'a \<Rightarrow> ('a \<Rightarrow> exn + 'b) \<Rightarrow> exn + 'b" where
  "bindE m f = (case m of Inl e \<Rightarrow> Inl e | Inr x \<Rightarrow> f x)"

definition throwTypeError :: "jsenv \<Rightarrow> fault \<Rightarrow> exn + 'a" where
  "throwTypeError env f = Inl (Err (faultMessage env f))"

fun mapE :: "('a \<Rightarrow> exn + 'b) \<Rightarrow> 'a list \<Rightarrow> exn + 'b list" where
  "mapE f [] = Inr []"
| "mapE f (x # xs) = bindE (f x) (\<lambda>y. bindE (mapE f xs) (\<lambda>ys. Inr (y # ys)))"

fun filterE :: "('a \<Rightarrow> exn + bool) \<Rightarrow> 'a list \<Rightarrow> exn + 'a list" where
  "filterE p [] = Inr []"
| "filterE p (x # xs) =
     bindE (p x) (\<lambda>keep. bindE (filterE p xs) (\<lambda>ys. Inr (if keep then x # ys else ys)))"

subsection \<open>Truthiness and property reads\<close>

fun numTruthy :: "jsnum \<Rightarrow> bool" where
  "numTruthy NaN = False"
| "numTruthy (Fin q) = (q \<noteq> 0)"
| "numTruthy PosInf = True"
| "numTruthy NegInf = True"

fun truthy :: "json \<Rightarrow> bool" where
  "truthy JNull = False"
| "truthy (JBool b) = b"
| "truthy (JNum n) = numTruthy n"
| "truthy (JStr s) = (s \<noteq> [])"
| "truthy (JArr xs) = True"
| "truthy (JObj kvs) = True"

fun truthyOpt :: "json option \<Rightarrow> bool" where
  "truthyOpt None = False"
| "truthyOpt (Some v) = truthy v"

text \<open>
  \<open>v.k\<close> for the property names the module reads from parsed JSON, none of which is
  inherited from a prototype: reading from \<open>null\<close> throws, an object gives its own
  property, every other value gives \<open>undefined\<close>.
\<close>

fun getProp :: "jsenv \<Rightarrow> json \<Rightarrow> string \<Rightarrow> exn + json option" where
  "getProp env JNull k = throwTypeError env (ReadOfNull k)"
| "getProp env (JObj kvs) k = Inr (map_of kvs k)"
| "getProp env v k = Inr None"

text \<open>Optional chaining: \<open>v?.k\<close> and \<open>v?.[0]\<close> give \<open>undefined\<close> on \<open>undefined\<close> and \<open>null\<close>.\<close>

fun optProp :: "json option \<Rightarrow> string \<Rightarrow> json option" where
  "optProp (Some (JObj kvs)) k = map_of kvs k"
| "optProp v k = None"

fun optIndex0 :: "json option \<Rightarrow> json option" where
  "optIndex0 (Some (JArr xs)) = (case xs of [] \<Rightarrow> None | x # _ \<Rightarrow> Some x)"
| "optIndex0 (Some (JStr s)) = (case s of [] \<Rightarrow> None | c # _ \<Rightarrow> Some (JStr [c]))"
| "optIndex0 (Some (JObj kvs)) = map_of kvs ''0''"
| "optIndex0 v = None"

fun isArray :: "json option \<Rightarrow> bool" where
  "isArray (Some (JArr xs)) = True"
| "isArray v = False"

subsection \<open>Conversions\<close>

fun commaJoin :: "string list \<Rightarrow> string" where
  "commaJoin [] = []"
| "commaJoin [s] = s"
| "commaJoin (s # t # ss) = s @ '','' @ commaJoin (t # ss)"

text \<open>
  \<open>ToString\<close>. An array is the comma-joined texts of its elements, \<open>null\<close> elements
  giving the empty text. A parsed object has no callable method of its own: with an own
  \<open>toString\<close> property the conversion finds no primitive value and throws, without one
  the inherited method answers \<open>[object Object]\<close>. \<open>ToPrimitive\<close> of an array or
  object gives the same text for either hint.
\<close>

fun ToString :: "jsenv \<Rightarrow> json \<Rightarrow> exn + string"
  and joinItems :: "jsenv \<Rightarrow> json list \<Rightarrow> exn + string list" where
  "ToString env JNull = Inr ''null''"
| "ToString env (JBool b) = Inr (if b then ''true'' else ''false'')"
| "ToString env (JNum n) = Inr (NumberToString env n)"
| "ToString env (JStr s) = Inr s"
| "ToString env (JArr xs) = bindE (joinItems env xs) (\<lambda>ss. Inr (commaJoin ss))"
| "ToString env (JObj kvs) =
    (if map_of kvs ''toString'' \<noteq> None then throwTypeError env NoPrimitiveValue
     else Inr ''[object Object]'')"
| "joinItems env [] = Inr []"
| "joinItems env (x # xs) =
     bindE (if x = JNull then Inr [] else ToString env x)
       (\<lambda>s. bindE (joinItems env xs) (\<lambda>ss. Inr (s # ss)))"

definition isDigit :: "char \<Rightarrow> bool" where
  "isDigit c = (48 \<le> (of_char c :: nat) \<and> (of_char c :: nat) \<le> 57)"

definition digitsValue :: "string \<Rightarrow> nat" where
  "digitsValue s = foldl (\<lambda>acc c. 10 * acc + ((of_char c :: nat) - 48)) 0 s"

text \<open>
  \<open>StringToNumber\<close>: the text is trimmed; the empty text is 0; a run of decimal digits
  whose value is below \<open>2 ^ 53\<close> is that integer exactly; any other literal is left to
  the environment.
\<close>

definition StringToNumber :: "jsenv \<Rightarrow> string \<Rightarrow> jsnum" where
  "StringToNumber env s =
     (let t = trim s
      in if t = [] then Fin 0
         else if list_all isDigit t \<and> digitsValue t < 2 ^ 53 then Fin (of_nat (digitsValue t))
         else StrNumericLiteral env t)"

text \<open>\<open>Number(v)\<close>; \<open>undefined\<close> converts to not-a-number.\<close>

fun ToNumber :: "jsenv \<Rightarrow> json option \<Rightarrow> exn + jsnum" where
  "ToNumber env None = Inr NaN"
| "ToNumber env (Some JNull) = Inr (Fin 0)"
| "ToNumber env (Some (JBool b)) = Inr (Fin (if b then 1 else 0))"
| "ToNumber env (Some (JNum n)) = Inr n"
| "ToNumber env (Some (JStr s)) = Inr (StringToNumber env s)"
| "ToNumber env (Some v) = bindE (ToString env v) (\<lambda>s. Inr (StringToNumber env s))"

subsection \<open>Dates\<close>

text \<open>
  A \<open>Date\<close> holds a time value, a whole number of milliseconds since the epoch of at
  most \<open>8.64e15\<close> in magnitude, or is invalid (\<open>None\<close>). \<open>Date.parse\<close> is left to the
  environment. \<open>toISOString\<close> is written out: the civil date of the day number in the
  proleptic Gregorian calendar, four digits for the years 0 to 9999 and a sign with six
  digits otherwise.
\<close>

definition truncRat :: "rat \<Rightarrow> int" where
  "truncRat q = (if 0 \<le> q then \<lfloor>q\<rfloor> else \<lceil>q\<rceil>)"

fun TimeClip :: "jsnum \<Rightarrow> int option" where
  "TimeClip (Fin q) = (if \<bar>q\<bar> > 8640000000000000 then None else Some (truncRat q))"
| "TimeClip n = None"

fun newDate :: "jsenv \<Rightarrow> json option \<Rightarrow> exn + int option" where
  "newDate env (Some (JStr s)) = Inr (TimeClip (DateParse env s))"
| "newDate env (Some (JArr xs)) =
     bindE (ToString env (JArr xs)) (\<lambda>s. Inr (TimeClip (DateParse env s)))"
| "newDate env (Some (JObj kvs)) =
     bindE (ToString env (JObj kvs)) (\<lambda>s. Inr (TimeClip (DateParse env s)))"
| "newDate env v = bindE (ToNumber env v) (\<lambda>n. Inr (TimeClip n))"

definition civilFromDays :: "int \<Rightarrow> int \<times> int \<times> int" where
  "civilFromDays days =
     (let z = days + 719468;
          era = z div 146097;
          doe = z - era * 146097;
          yoe = (doe - doe div 1460 + doe div 36524 - doe div 146096) div 365;
          y = yoe + era * 400;
          doy = doe - (365 * yoe + yoe div 4 - yoe div 100);
          mp = (5 * doy + 2) div 153;
          d = doy - (153 * mp + 2) div 5 + 1;
          m = (if mp < 10 then mp + 3 else mp - 9)
      in (if m \<le> 2 then y + 1 else y, m, d))"

definition digitChar :: "nat \<Rightarrow> char" where
  "digitChar n = ''0123456789'' ! (n mod 10)"

fun padDigits :: "nat \<Rightarrow> nat \<Rightarrow> string" where
  "padDigits 0 n = []"
| "padDigits (Suc w) n = padDigits w (n div 10) @ [digitChar n]"

definition yearString :: "int \<Rightarrow> string" where
  "yearString y =
     (if 0 \<le> y \<and> y \<le> 9999 then padDigits 4 (nat y)
      else (if y < 0 then ''-'' else ''+'') @ padDigits 6 (nat \<bar>y\<bar>))"

definition toISOString :: "int \<Rightarrow> string" where
  "toISOString t =
     (let day = t div 86400000;
          ms = nat (t mod 86400000);
          (y, m, d) = civilFromDays day
      in yearString y @ ''-'' @ padDigits 2 (nat m) @ ''-'' @ padDigits 2 (nat d) @ ''T''
         @ padDigits 2 (ms div 3600000) @ '':'' @ padDigits 2 (ms div 60000 mod 60) @ '':''
         @ padDigits 2 (ms div 1000 mod 60) @ ''.'' @ padDigits 3 (ms mod 1000) @ ''Z'')"

section \<open>The normalizers\<close>

text \<open>
  \<open>normalizeDate\<close> of \<open>ai.ts\<close>: the date part of the ISO text (\<open>split('T')[0]\<close>, the text
  before the first \<open>T\<close>) when the value makes a valid \<open>Date\<close>, the value itself otherwise.
\<close>

definition normalizeDate :: "jsenv \<Rightarrow> json option \<Rightarrow> exn + json option" where
  "normalizeDate env dateStr =
     bindE (newDate env dateStr)
       (\<lambda>date. case date of
            Some t \<Rightarrow> Inr (Some (JStr (takeWhile (\<lambda>c. c \<noteq> CHR ''T'') (toISOString t))))
          | None \<Rightarrow> Inr dateStr)"

datatype shift = day | afternoon | graveyard

text \<open>\<open>a || b\<close> on values: \<open>a\<close> when it is truthy, \<open>b\<close> otherwise.\<close>

fun orElse :: "json option \<Rightarrow> json \<Rightarrow> json" where
  "orElse None b = b"
| "orElse (Some a) b = (if truthy a then a else b)"

text \<open>
  \<open>normalizeShiftType\<close> of \<open>ai.ts\<close>. The argument is whatever the entry holds under
  \<open>shift_type\<close>; a truthy value that is not a string has no \<open>toLowerCase\<close> method, and
  the call throws.
\<close>

definition classifyShift :: "string \<Rightarrow> shift" where
  "classifyShift s =
     (if includes_str s ''grave'' \<or> includes_str s ''night'' \<or> includes_str s ''mid'' then graveyard
      else if includes_str s ''after'' \<or> includes_str s ''evening'' \<or> includes_str s ''pm''
              \<or> includes_str s ''swing'' then afternoon
      else day)"

definition normalizeShiftType :: "jsenv \<Rightarrow> json option \<Rightarrow> exn + shift" where
  "normalizeShiftType env shift =
     (case orElse shift (JStr []) of
        JStr s \<Rightarrow> Inr (classifyShift (toLowerCase s))
      | v \<Rightarrow> throwTypeError env (NotAFunction ''toLowerCase''))"

text \<open>
  \<open>extractJSON\<close> of \<open>ai.ts\<close>. The primary adapter always hands it a string; the backup
  adapter may hand it any truthy value of the reply, and \<open>trim\<close> is a method of strings
  only.
\<close>

definition stripFence :: "string \<Rightarrow> string" where
  "stripFence response =
     (let j0 = trim response;
          j1 = (if startsWith j0 ''```json'' then drop 7 j0
                else if startsWith j0 ''```'' then drop 3 j0 else j0);
          j2 = (if endsWith j1 ''```'' then take (length j1 - 3) j1 else j1)
      in trim j2)"

definition extractJSON :: "jsenv \<Rightarrow> json \<Rightarrow> exn + string" where
  "extractJSON env response =
     (case response of
        JStr s \<Rightarrow> Inr (stripFence s)
      | v \<Rightarrow> throwTypeError env (NotAFunction ''trim''))"

text \<open>
  The match of the regular expression \<open>/\{[\s\S]*\}/\<close>: from the first opening brace to
  the last closing brace after it.
\<close>

definition matchBraces :: "string \<Rightarrow> string option" where
  "matchBraces s =
     (let rest = dropWhile (\<lambda>c. c \<noteq> CHR ''{'') s
      in if CHR ''}'' \<in> set rest
         then Some (rev (dropWhile (\<lambda>c. c \<noteq> CHR ''}'') (rev rest)))
         else None)"

text \<open>\<open>const m = s.match(...); if (m) s = m[0]\<close>: the match when there is one.\<close>

definition jsonObjectText :: "string \<Rightarrow> string" where
  "jsonObjectText s = (case matchBraces s of Some m \<Rightarrow> m | None \<Rightarrow> s)"

definition parseJSON :: "jsenv \<Rightarrow> string \<Rightarrow> exn + json" where
  "parseJSON env s = (case JSON_parse env s of Inl m \<Rightarrow> Inl (Err m) | Inr v \<Rightarrow> Inr v)"

section \<open>Asynchronous code\<close>

text \<open>
  An \<open>async\<close> function is run to the end: given the network calls made so far it
  returns what it returns or throws, and the calls extended by its own, in order.
\<close>

type_synonym 'a io = "net_call list \<Rightarrow> (exn + 'a) \<times> net_call list"

definition pureIO :: "'a \<Rightarrow> 'a io" where
  "pureIO x = (\<lambda>calls. (Inr x, calls))"

definition throwIO :: "exn \<Rightarrow> 'a io" where
  "throwIO e = (\<lambda>calls. (Inl e, calls))"

definition liftE :: "exn + 'a \<Rightarrow> 'a io" where
  "liftE m = (\<lambda>calls. (m, calls))"

definition bindIO :: "'a io \<Rightarrow> ('a \<Rightarrow> 'b io) \<Rightarrow> 'b io" where
  "bindIO m f = (\<lambda>calls. case m calls of
                    (Inl e, calls') \<Rightarrow> (Inl e, calls')
                  | (Inr x, calls') \<Rightarrow> f x calls')"

definition tryCatch :: "'a io \<Rightarrow> (exn \<Rightarrow> 'a io) \<Rightarrow> 'a io" where
  "tryCatch body handler = (\<lambda>calls. case body calls of
                    (Inl e, calls') \<Rightarrow> handler e calls'
                  | (Inr x, calls') \<Rightarrow> (Inr x, calls'))"

definition postIO :: "jsenv \<Rightarrow> claude_request \<Rightarrow> http_response io" where
  "postIO env req = (\<lambda>calls. (CapacitorHttp_post env req, calls @ [ClaudePost req]))"

definition fetchIO :: "jsenv \<Rightarrow> gemini_request \<Rightarrow> fetch_response io" where
  "fetchIO env req = (\<lambda>calls. (fetch env req, calls @ [GeminiFetch req]))"

section \<open>The provider adapters\<close>

definition getGeminiApiKey :: "jsenv \<Rightarrow> string option \<Rightarrow> string" where
  "getGeminiApiKey env userKey =
     (case userKey of
        Some k \<Rightarrow> if k \<noteq> [] then k else ENV_GEMINI_KEY env
      | None \<Rightarrow> ENV_GEMINI_KEY env)"

function showNat :: "nat \<Rightarrow> string" where
  "showNat n = (if n < 10 then [digitChar n] else showNat (n div 10) @ [digitChar n])"
  by pat_completeness auto
termination
  by (relation "measure (\<lambda>n. n)") auto

declare showNat.simps [simp del]

text \<open>The attachment of \<open>callClaude\<close>, then the prompt.\<close>

definition claudeContent :: "string \<Rightarrow> string option \<Rightarrow> content_part list" where
  "claudeContent prompt imageBase64 =
     (case imageBase64 of
        None \<Rightarrow> []
      | Some img \<Rightarrow>
          if img = [] then []
          else (case parseDataURL img of
                  None \<Rightarrow> []
                | Some parsed \<Rightarrow>
                    if mediaType parsed = ''application/pdf''
                    then [DocumentPart ''application/pdf'' (data parsed)]
                    else if mediaType parsed
                            \<in> set [''image/jpeg'', ''image/png'', ''image/gif'', ''image/webp'']
                    then [ImagePart (mediaType parsed) (data parsed)]
                    else [ImagePart ''image/jpeg'' (data parsed)]))
     @ [TextPart prompt]"

text \<open>
  What \<open>callClaude\<close> does with the response. The text it returns is always a string:
  it calls \<open>substring\<close> on it, which a truthy value of another type does not have.
\<close>

definition claudeText :: "jsenv \<Rightarrow> http_response \<Rightarrow> exn + string" where
  "claudeText env response =
     bindE (case response_data response of
              JStr body \<Rightarrow> (case JSON_parse env body of
                              Inl m \<Rightarrow> Inl (Err ''Invalid response from API'')
                            | Inr v \<Rightarrow> Inr v)
            | v \<Rightarrow> Inr v)
       (\<lambda>responseData.
          if status response \<noteq> 200
          then bindE (ToString env
                        (orElse (optProp (optProp (Some responseData) ''error'') ''message'')
                           (JStr (''API request failed with status '' @ showNat (status response)))))
                 (\<lambda>errorMsg. Inl (Err errorMsg))
          else (case orElse (optProp (optIndex0 (optProp (Some responseData) ''content'')) ''text'')
                       (JStr [])
                of JStr text \<Rightarrow> Inr text
                 | v \<Rightarrow> throwTypeError env (NotAFunction ''substring'')))"

definition callClaude :: "jsenv \<Rightarrow> string \<Rightarrow> string \<Rightarrow> string option \<Rightarrow> string io" where
  "callClaude env apiKey prompt imageBase64 =
     bindIO (postIO env \<lparr>x_api_key = apiKey, content = claudeContent prompt imageBase64\<rparr>)
       (\<lambda>response. liftE (claudeText env response))"

definition geminiParts :: "string \<Rightarrow> string option \<Rightarrow> gemini_part list" where
  "geminiParts prompt imageBase64 =
     (case imageBase64 of
        None \<Rightarrow> []
      | Some img \<Rightarrow>
          if img = [] then []
          else (case parseDataURL img of
                  None \<Rightarrow> []
                | Some parsed \<Rightarrow> [InlineData (mediaType parsed) (data parsed)]))
     @ [TextOnly prompt]"

definition geminiText :: "jsenv \<Rightarrow> fetch_response \<Rightarrow> exn + json" where
  "geminiText env response =
     (if \<not> ok response
      then bindE (json_body response)
             (\<lambda>error. bindE (getProp env error ''error'')
                (\<lambda>inner. bindE (ToString env (orElse (optProp inner ''message'')
                                                (JStr ''Gemini API request failed'')))
                   (\<lambda>msg. Inl (Err msg))))
      else bindE (json_body response)
             (\<lambda>result. bindE (getProp env result ''candidates'')
                (\<lambda>candidates.
                   Inr (orElse (optProp (optIndex0 (optProp (optProp (optIndex0 candidates)
                                  ''content'') ''parts'')) ''text'')
                          (JStr [])))))"

definition callGemini :: "jsenv \<Rightarrow> string \<Rightarrow> string \<Rightarrow> string option \<Rightarrow> json io" where
  "callGemini env apiKey prompt imageBase64 =
     bindIO (fetchIO env \<lparr>key = apiKey, parts = geminiParts prompt imageBase64\<rparr>)
       (\<lambda>response. liftE (geminiText env response))"

section \<open>Timesheet extraction\<close>

text \<open>
  An entry as \<open>parseTimesheetWithAI\<close> returns it: the five properties the mapping
  sets, and under \<open>rest\<close> the other own properties of the source entry, which the spread
  \<open>...e\<close> copies.
\<close>

record timesheet_entry =
  date :: "json option"
  shift_type :: shift
  hours :: jsnum
  job_name :: json
  earnings :: "jsnum option"
  rest :: "(string \<times> json) list"

datatype ai_data = Entries "timesheet_entry list" | Paystub json

datatype ai_response = Success ai_data | Failure string

fun errorMessage :: "exn \<Rightarrow> string \<Rightarrow> string" where
  "errorMessage (Err m) fallback = m"
| "errorMessage NonErr fallback = fallback"

fun ownProperties :: "json \<Rightarrow> (string \<times> json) list" where
  "ownProperties (JObj kvs) = kvs"
| "ownProperties (JArr xs) = zip (map showNat [0..<length xs]) xs"
| "ownProperties (JStr s) = zip (map showNat [0..<length s]) (map (\<lambda>c. JStr [c]) s)"
| "ownProperties v = []"

text \<open>The predicate of the filter: \<open>e => e.date && e.hours\<close>.\<close>

definition keepEntry :: "jsenv \<Rightarrow> json \<Rightarrow> exn + bool" where
  "keepEntry env e =
     bindE (getProp env e ''date'')
       (\<lambda>d. if truthyOpt d then bindE (getProp env e ''hours'') (\<lambda>h. Inr (truthyOpt h))
            else Inr False)"

text \<open>The function of the map, its properties computed in the order they are written.\<close>

definition normalizeEntry :: "jsenv \<Rightarrow> json \<Rightarrow> exn + timesheet_entry" where
  "normalizeEntry env e =
     bindE (getProp env e ''date'') (\<lambda>d.
     bindE (normalizeDate env d) (\<lambda>nd.
     bindE (getProp env e ''shift_type'') (\<lambda>st.
     bindE (normalizeShiftType env st) (\<lambda>ns.
     bindE (getProp env e ''hours'') (\<lambda>h.
     bindE (ToNumber env h) (\<lambda>n.
     bindE (getProp env e ''job_name'') (\<lambda>jn.
     bindE (getProp env e ''earnings'') (\<lambda>ea.
     bindE (if truthyOpt ea then bindE (ToNumber env ea) (\<lambda>x. Inr (Some x)) else Inr None) (\<lambda>en.
       Inr \<lparr>date = nd,
            shift_type = ns,
            hours = (if numTruthy n then n else Fin 8),
            job_name = orElse jn (JStr ''Imported''),
            earnings = en,
            rest = filter (\<lambda>kv. fst kv \<notin> set [''date'', ''shift_type'', ''hours'',
                                               ''job_name'', ''earnings''])
                     (ownProperties e)\<rparr>)))))))))"

text \<open>
  \<open>entries.filter(...).map(...)\<close>: the whole filter runs before the map; a value that
  is not an array has no \<open>filter\<close> method.
\<close>

definition validEntries :: "jsenv \<Rightarrow> json \<Rightarrow> exn + timesheet_entry list" where
  "validEntries env entries =
     (case entries of
        JArr es \<Rightarrow> bindE (filterE (keepEntry env) es) (mapE (normalizeEntry env))
      | JNull \<Rightarrow> throwTypeError env (ReadOfNull ''filter'')
      | v \<Rightarrow> throwTypeError env (NotAFunction ''filter''))"

text \<open>
  The statements that follow the adapter call, the same in the primary and in the backup
  block of \<open>parseTimesheetWithAI\<close>.
\<close>

definition timesheetFromResponse :: "jsenv \<Rightarrow> json \<Rightarrow> exn + ai_response" where
  "timesheetFromResponse env response =
     bindE (extractJSON env response) (\<lambda>jsonStr.
     bindE (parseJSON env jsonStr) (\<lambda>entries.
     bindE (validEntries env entries) (\<lambda>valid. Inr (Success (Entries valid)))))"

definition timesheetPromptFor :: "jsenv \<Rightarrow> string option \<Rightarrow> string" where
  "timesheetPromptFor env textContent =
     timesheetPrompt env
     @ (case textContent of
          None \<Rightarrow> []
        | Some c \<Rightarrow> if c = [] then []
                   else [CHR 0x0A] @ ''Text content to parse:'' @ [CHR 0x0A] @ c)"

text \<open>The body of the outer \<open>try\<close> block, and the body of the inner one.\<close>

definition timesheetPrimary ::
    "jsenv \<Rightarrow> string \<Rightarrow> string \<Rightarrow> string option \<Rightarrow> ai_response io" where
  "timesheetPrimary env apiKey prompt imageBase64 =
     bindIO (callClaude env apiKey prompt imageBase64)
       (\<lambda>response. liftE (timesheetFromResponse env (JStr response)))"

definition timesheetBackup :: "jsenv \<Rightarrow> string \<Rightarrow> string option \<Rightarrow> ai_response io" where
  "timesheetBackup env prompt imageBase64 =
     (let geminiKey = getGeminiApiKey env None
      in if geminiKey = [] then throwIO (Err ''No Gemini API key available'')
         else bindIO (callGemini env geminiKey prompt imageBase64)
                (\<lambda>response. liftE (timesheetFromResponse env response)))"

definition parseTimesheetWithAI ::
    "jsenv \<Rightarrow> string \<Rightarrow> string option \<Rightarrow> string option \<Rightarrow> ai_response io" where
  "parseTimesheetWithAI env apiKey textContent imageBase64 =
     (let prompt = timesheetPromptFor env textContent
      in tryCatch (timesheetPrimary env apiKey prompt imageBase64)
           (\<lambda>error.
              tryCatch (timesheetBackup env prompt imageBase64)
                (\<lambda>geminiError.
                   pureIO (Failure (errorMessage error ''Failed to parse timesheet'')))))"

section \<open>Paystub extraction\<close>

definition noPayData :: "string \<Rightarrow> string" where
  "noPayData response = ''No pay data found. Claude returned: '' @ take 200 response"

fun arrayLength :: "json option \<Rightarrow> nat" where
  "arrayLength (Some (JArr xs)) = length xs"
| "arrayLength v = 0"

text \<open>
  Lines 279 to 293 of \<open>ai.ts\<close>, by the kind of value the parse gave. Reading a property
  of \<open>null\<close> throws. An object is updated and tested. An array has none of the named
  properties, takes the empty \<open>line_items\<close> and fails the test. Any other value is a
  primitive: its properties read as \<open>undefined\<close>, and the assignment to \<open>line_items\<close>
  throws, the module being strict code.
\<close>

definition paystubFromData :: "jsenv \<Rightarrow> string \<Rightarrow> json \<Rightarrow> exn + ai_response" where
  "paystubFromData env response parsed =
     (case parsed of
        JNull \<Rightarrow> throwTypeError env (ReadOfNull ''total_hours'')
      | JObj kvs \<Rightarrow>
          (let kvs1 = (case map_of kvs ''total_hours'' of
                         Some th \<Rightarrow>
                           if truthy th \<and> \<not> truthyOpt (map_of kvs ''hours_worked'')
                           then AList.update ''hours_worked'' th kvs else kvs
                       | None \<Rightarrow> kvs);
               kvs2 = (if isArray (map_of kvs1 ''line_items'') then kvs1
                       else AList.update ''line_items'' (JArr []) kvs1)
           in if truthyOpt (map_of kvs2 ''gross_pay'') \<or> truthyOpt (map_of kvs2 ''net_pay'')
                 \<or> arrayLength (map_of kvs2 ''line_items'') > 0
              then Inr (Success (Paystub (JObj kvs2)))
              else Inr (Failure (noPayData response)))
      | JArr xs \<Rightarrow> Inr (Failure (noPayData response))
      | v \<Rightarrow> throwTypeError env (AssignToPrimitive ''line_items''))"

definition paystubFromResponse :: "jsenv \<Rightarrow> string \<Rightarrow> exn + ai_response" where
  "paystubFromResponse env response =
     bindE (parseJSON env (jsonObjectText (stripFence response))) (paystubFromData env response)"

definition parsePaystubWithClaude :: "jsenv \<Rightarrow> string \<Rightarrow> string \<Rightarrow> ai_response io" where
  "parsePaystubWithClaude env apiKey imageBase64 =
     tryCatch
       (bindIO (callClaude env apiKey (paystubPrompt env) (Some imageBase64))
          (\<lambda>response. liftE (paystubFromResponse env response)))
       (\<lambda>error. pureIO (Failure (errorMessage error ''Failed to parse paystub'')))"

section \<open>Statutory holiday schedule extraction\<close>

text \<open>
  The response of \<open>parseStatScheduleWithAI\<close>: the year and the holidays, or the \<open>error\<close>
  property, which is a message of the module or the value the model sent under \<open>error\<close>.
\<close>

datatype schedule_response = ScheduleSuccess json "json list" | ScheduleFailure json

text \<open>\<open>h => h.name && h.date && h.qualification_start && h.qualification_end\<close>.\<close>

definition validHoliday :: "jsenv \<Rightarrow> json \<Rightarrow> exn + bool" where
  "validHoliday env h =
     bindE (getProp env h ''name'') (\<lambda>a.
       if \<not> truthyOpt a then Inr False
       else bindE (getProp env h ''date'') (\<lambda>b.
         if \<not> truthyOpt b then Inr False
         else bindE (getProp env h ''qualification_start'') (\<lambda>c.
           if \<not> truthyOpt c then Inr False
           else bindE (getProp env h ''qualification_end'') (\<lambda>d. Inr (truthyOpt d)))))"

text \<open>Lines 425 to 441 of \<open>ai.ts\<close>, and the same statements of the backup block.\<close>

definition scheduleFromData :: "jsenv \<Rightarrow> json \<Rightarrow> exn + schedule_response" where
  "scheduleFromData env parsed =
     bindE (getProp env parsed ''error'') (\<lambda>err.
       case (if truthyOpt err then err else None) of
         Some e \<Rightarrow> Inr (ScheduleFailure e)
       | None \<Rightarrow>
           bindE (getProp env parsed ''year'') (\<lambda>year.
           bindE (getProp env parsed ''holidays'') (\<lambda>holidays.
             case (year, holidays) of
               (Some y, Some (JArr hs)) \<Rightarrow>
                 if \<not> truthy y then Inr (ScheduleFailure (JStr ''Invalid data format''))
                 else bindE (filterE (validHoliday env) hs) (\<lambda>validHolidays.
                        if length validHolidays = 0
                        then Inr (ScheduleFailure (JStr ''No valid holidays found''))
                        else Inr (ScheduleSuccess y validHolidays))
             | other \<Rightarrow> Inr (ScheduleFailure (JStr ''Invalid data format'')))))"

definition scheduleFromResponse :: "jsenv \<Rightarrow> json \<Rightarrow> exn + schedule_response" where
  "scheduleFromResponse env response =
     bindE (extractJSON env response) (\<lambda>jsonStr.
       bindE (parseJSON env (jsonObjectText jsonStr)) (scheduleFromData env))"

definition schedulePrimary :: "jsenv \<Rightarrow> string \<Rightarrow> string \<Rightarrow> string \<Rightarrow> schedule_response io" where
  "schedulePrimary env apiKey prompt imageBase64 =
     bindIO (callClaude env apiKey prompt (Some imageBase64))
       (\<lambda>response. liftE (scheduleFromResponse env (JStr response)))"

definition scheduleBackup :: "jsenv \<Rightarrow> string \<Rightarrow> string \<Rightarrow> schedule_response io" where
  "scheduleBackup env prompt imageBase64 =
     (let geminiKey = getGeminiApiKey env None
      in if geminiKey = [] then throwIO (Err ''No Gemini API key available'')
         else bindIO (callGemini env geminiKey prompt (Some imageBase64))
                (\<lambda>response. liftE (scheduleFromResponse env response)))"

definition parseStatScheduleWithAI :: "jsenv \<Rightarrow> string \<Rightarrow> string \<Rightarrow> schedule_response io" where
  "parseStatScheduleWithAI env apiKey imageBase64 =
     (let prompt = statSchedulePrompt env
      in tryCatch (schedulePrimary env apiKey prompt imageBase64)
           (\<lambda>error.
              tryCatch (scheduleBackup env prompt imageBase64)
                (\<lambda>geminiError.
                   pureIO (ScheduleFailure
                             (JStr (errorMessage error ''Failed to parse stat schedule''))))))"

section \<open>The criteria in words\<close>

text \<open>
  The tests of the operations as predicates on the parsed values, with no reading that
  can throw: an entry that has a date and hours, a holiday that has its four required
  fields, and a paystub with pay data, where to have a field is to have a truthy value
  under it.
\<close>

definition hasDateAndHours :: "json \<Rightarrow> bool" where
  "hasDateAndHours e =
     (truthyOpt (optProp (Some e) ''date'') \<and> truthyOpt (optProp (Some e) ''hours''))"


definition payDataPresent :: "(string \<times> json) list \<Rightarrow> bool" where
  "payDataPresent kvs =
     (truthyOpt (map_of kvs ''gross_pay'') \<or> truthyOpt (map_of kvs ''net_pay'')
      \<or> arrayLength (map_of kvs ''line_items'') > 0)"

section \<open>Scenarios\<close>

text \<open>
  An environment for running the module on a scenario: \<open>JSON.parse\<close> and
  \<open>Date.parse\<close> are known on the texts listed, the primary and the backup service
  answer every request with the given outcome, no literal beyond the ones written out
  above is numeric, and the engine's messages follow those of V8.
\<close>

fun v8Message :: "fault \<Rightarrow> string" where
  "v8Message (ReadOfNull k) =
     ''Cannot read properties of null (reading '' @ [CHR 0x27] @ k @ [CHR 0x27] @ '')''"
| "v8Message (NotAFunction k) = k @ '' is not a function''"
| "v8Message NoPrimitiveValue = ''Cannot convert object to primitive value''"
| "v8Message (AssignToPrimitive k) = ''Cannot create property '' @ k"

definition scenario ::
    "(string \<times> json) list \<Rightarrow> (string \<times> rat) list \<Rightarrow> exn + http_response \<Rightarrow> string
       \<Rightarrow> exn + fetch_response \<Rightarrow> jsenv" where
  "scenario jsonTexts dateTexts primary backupKey backup =
     \<lparr>StrNumericLiteral = (\<lambda>s. NaN),
      NumberToString = (\<lambda>n. ''NaN''),
      DateParse = (\<lambda>s. case map_of dateTexts s of Some t \<Rightarrow> Fin t | None \<Rightarrow> NaN),
      JSON_parse = (\<lambda>s. case map_of jsonTexts s of
                           Some v \<Rightarrow> Inr v
                         | None \<Rightarrow> Inl ''Unexpected token''),
      faultMessage = v8Message,
      timesheetPrompt = ''Extract the timesheet entries.'',
      paystubPrompt = ''Extract the paystub.'',
      statSchedulePrompt = ''Extract the stat holiday schedule.'',
      ENV_GEMINI_KEY = backupKey,
      CapacitorHttp_post = (\<lambda>req. primary),
      fetch = (\<lambda>req. backup)\<rparr>"

text \<open>The body of a 200 response of the primary service whose first text segment is \<open>t\<close>.\<close>

definition claudeReply :: "string \<Rightarrow> exn + http_response" where
  "claudeReply t =
     Inr \<lparr>status = 200, response_data = JObj [(''content'', JArr [JObj [(''text'', JStr t)]])]\<rparr>"

text \<open>A successful response of the backup service whose first text part is \<open>t\<close>.\<close>

definition geminiReply :: "string \<Rightarrow> exn + fetch_response" where
  "geminiReply t =
     Inr \<lparr>ok = True,
          json_body = Inr (JObj [(''candidates'',
                        JArr [JObj [(''content'',
                                JObj [(''parts'', JArr [JObj [(''text'', JStr t)]])])]])])\<rparr>"

text \<open>The texts of the scenarios with the values \<open>JSON.parse\<close> and \<open>Date.parse\<close> give.\<close>

definition sampleTexts :: "(string \<times> json) list" where
  \<open>sampleTexts =
     [(''[]'', JArr []),
      (''[{"date":"2024-01-15","hours":-5}]'',
       JArr [JObj [(''date'', JStr ''2024-01-15''), (''hours'', JNum (Fin (- 5)))]]),
      (''[{"date":"2024-01-15","hours":8,"earnings":"0"}]'',
       JArr [JObj [(''date'', JStr ''2024-01-15''), (''hours'', JNum (Fin 8)),
                   (''earnings'', JStr ''0'')]]),
      (''[{"date":"2024-01-15","shift_type":"Night Shift","hours":"6","job_name":""},{"date":"2024-01-16"}]'',
       JArr [JObj [(''date'', JStr ''2024-01-15''), (''shift_type'', JStr ''Night Shift''),
                   (''hours'', JStr ''6''), (''job_name'', JStr [])],
             JObj [(''date'', JStr ''2024-01-16'')]]),
      (''[{"date":"2024-01-15","hours":8,"earnings":450},{"date":"2024-01-15","hours":4,"earnings":0}]'',
       JArr [JObj [(''date'', JStr ''2024-01-15''), (''hours'', JNum (Fin 8)),
                   (''earnings'', JNum (Fin 450))],
             JObj [(''date'', JStr ''2024-01-15''), (''hours'', JNum (Fin 4)),
                   (''earnings'', JNum (Fin 0))]]),
      (''{"error":42}'', JObj [(''error'', JNum (Fin 42))]),
      (''{"error":"not_stat_schedule"}'', JObj [(''error'', JStr ''not_stat_schedule'')]),
      (''{"gross_pay":0,"net_pay":0,"line_items":[]}'',
       JObj [(''gross_pay'', JNum (Fin 0)), (''net_pay'', JNum (Fin 0)), (''line_items'', JArr [])]),
      (''{"gross_pay":1200,"net_pay":950,"total_hours":40}'',
       JObj [(''gross_pay'', JNum (Fin 1200)), (''net_pay'', JNum (Fin 950)),
             (''total_hours'', JNum (Fin 40))]),
      (''{"year":2026,"holidays":[null]}'',
       JObj [(''year'', JNum (Fin 2026)), (''holidays'', JArr [JNull])]),
      (''{"year":2026,"holidays":[{"name":"Canada Day","date":"2026-07-01","qualification_start":"2026-05-04","qualification_end":"2026-06-02"}]}'',
       JObj [(''year'', JNum (Fin 2026)),
             (''holidays'',
              JArr [JObj [(''name'', JStr ''Canada Day''), (''date'', JStr ''2026-07-01''),
                          (''qualification_start'', JStr ''2026-05-04''),
                          (''qualification_end'', JStr ''2026-06-02'')]])])]\<close>

definition sampleDates :: "(string \<times> rat) list" where
  "sampleDates = [(''2024-01-15'', 1705276800000)]"

section \<open>The media decoder: properties\<close>

lemma indexOf_absent: "c \<notin> set s \<Longrightarrow> indexOf s c = - 1"
  by (simp add: indexOf_def)

lemma indexOf_first: "c \<notin> set a \<Longrightarrow> indexOf (a @ c # b) c = int (length a)"
  by (induction a) (auto simp add: indexOf_def)

lemma indexOf_Cons_pos: "x \<noteq> c \<Longrightarrow> c \<in> set s \<Longrightarrow> 0 < indexOf (x # s) c"
  by (simp add: indexOf_def)

lemma substring_middle:
  "substring (a @ m @ b) (int (length a)) (int (length a) + int (length m)) = m"
proof -
  have "nat (int (length a) + int (length m) - int (length a)) = length m" by simp
  then show ?thesis
    by (simp add: substring_def Let_def max_absorb1 min_absorb1 max_absorb2 del: of_nat_add)
qed

lemma substringFrom_tail: "substringFrom (a @ b) (int (length a)) = b"
  by (simp add: substringFrom_def substring_def Let_def max_absorb1 min_absorb1 max_absorb2)

lemma parseDataURL_jpg:
  "parseDataURL (''data:image/jpg;base64,'' @ X) = Some \<lparr>mediaType = ''image/jpeg'', data = X\<rparr>"
proof -
  let ?u = "''data:image/jpg;base64,'' @ X"
  have semi: "indexOf ?u (CHR '';'') = 14"
    using indexOf_first [of "CHR '';''" "''data:image/jpg''" "''base64,'' @ X"] by simp
  have comma: "indexOf ?u (CHR '','') = 21"
    using indexOf_first [of "CHR '',''" "''data:image/jpg;base64''" X] by simp
  have mt: "substring ?u 5 14 = ''image/jpg''"
    using substring_middle [of "''data:''" "''image/jpg''" "'';base64,'' @ X"] by simp
  have d: "substringFrom ?u (21 + 1) = X"
    using substringFrom_tail [of "''data:image/jpg;base64,''" X] by simp
  show ?thesis
    unfolding parseDataURL_def Let_def semi comma mt d by simp
qed

lemma parseDataURL_other:
  assumes "CHR '';'' \<notin> set M" and "M \<noteq> ''image/jpg''"
  shows "\<exists>d. parseDataURL (''data:'' @ M @ '';base64,'' @ X) = Some \<lparr>mediaType = M, data = d\<rparr>
             \<and> (CHR '','' \<notin> set M \<longrightarrow> d = X)"
proof -
  let ?u = "''data:'' @ M @ '';base64,'' @ X"
  have semi: "indexOf ?u (CHR '';'') = 5 + int (length M)"
    using indexOf_first [of "CHR '';''" "''data:'' @ M" "''base64,'' @ X"] assms(1) by simp
  have comma_pos: "0 < indexOf ?u (CHR '','')"
    using indexOf_Cons_pos [of "CHR ''d''" "CHR '',''" "''ata:'' @ M @ '';base64,'' @ X"] by simp
  have mt: "substring ?u 5 (5 + int (length M)) = M"
    using substring_middle [of "''data:''" M "'';base64,'' @ X"] by simp
  have d: "substringFrom ?u (indexOf ?u (CHR '','') + 1) = X" if "CHR '','' \<notin> set M"
  proof -
    have "indexOf ?u (CHR '','') = int (length (''data:'' @ M @ '';base64''))"
      using indexOf_first [of "CHR '',''" "''data:'' @ M @ '';base64''" X] that by simp
    then show ?thesis
      using substringFrom_tail [of "''data:'' @ M @ '';base64,''" X] by simp
  qed
  have "parseDataURL ?u
          = Some \<lparr>mediaType = M, data = substringFrom ?u (indexOf ?u (CHR '','') + 1)\<rparr>"
    unfolding parseDataURL_def Let_def semi mt using comma_pos assms(2) by simp
  then show ?thesis using d by auto
qed

text \<open>
  C7, as amended. A string without a comma or without a semicolon decodes to \<open>null\<close>;
  the decoder has no operation that throws. It answers \<open>null\<close> exactly when the first
  comma or the first semicolon is missing or at index 0: the order of the two is not
  looked at.
\<close>

theorem parseDataURL_null_iff:
  "(CHR '','' \<notin> set s \<or> CHR '';'' \<notin> set s \<longrightarrow> parseDataURL s = None)
   \<and> (parseDataURL s = None \<longleftrightarrow> indexOf s (CHR '','') \<le> 0 \<or> indexOf s (CHR '';'') \<le> 0)"
  by (simp add: parseDataURL_def Let_def indexOf_def)

theorem parseDataURL_null_iff_witness:
  "CHR '','' \<notin> set ''data:image/png;base64'' \<and> parseDataURL ''data:image/png;base64'' = None"
  using parseDataURL_null_iff [of "''data:image/png;base64''"] by simp

text \<open>
  C7 as stated fails: in \<open>data:text/plain,hello;x\<close> the comma comes before the
  semicolon, and the string is decoded all the same.
\<close>

theorem parseDataURL_order_counterexample:
  "indexOf ''data:text/plain,hello;x'' (CHR '','') < indexOf ''data:text/plain,hello;x'' (CHR '';'')
   \<and> parseDataURL ''data:text/plain,hello;x''
       = Some \<lparr>mediaType = ''text/plain,hello'', data = ''hello;x''\<rparr>"
  by (simp add: parseDataURL_def indexOf_def substring_def substringFrom_def)

text \<open>
  C9. For every payload \<open>X\<close>, \<open>data:image/jpg;base64,X\<close> decodes to the media type
  \<open>image/jpeg\<close> and the payload \<open>X\<close>. Any other media type \<open>M\<close> (a text without
  semicolon) in \<open>data:M;base64,X\<close> comes back as it is, with the payload \<open>X\<close> when
  \<open>M\<close> has no comma. Whatever the input, the media type returned is the text between
  index 5 and the first semicolon, changed only when it is \<open>image/jpg\<close>.
\<close>

theorem parseDataURL_jpg_alias:
  "parseDataURL (''data:image/jpg;base64,'' @ X) = Some \<lparr>mediaType = ''image/jpeg'', data = X\<rparr>
   \<and> (CHR '';'' \<notin> set M \<and> M \<noteq> ''image/jpg'' \<longrightarrow>
        (\<exists>d. parseDataURL (''data:'' @ M @ '';base64,'' @ X) = Some \<lparr>mediaType = M, data = d\<rparr>
             \<and> (CHR '','' \<notin> set M \<longrightarrow> d = X)))
   \<and> (parseDataURL s = Some p \<longrightarrow>
        mediaType p = (if substring s 5 (indexOf s (CHR '';'')) = ''image/jpg'' then ''image/jpeg''
                       else substring s 5 (indexOf s (CHR '';'')))
        \<and> data p = substringFrom s (indexOf s (CHR '','') + 1))"
proof (intro conjI impI)
  show "parseDataURL (''data:image/jpg;base64,'' @ X)
          = Some \<lparr>mediaType = ''image/jpeg'', data = X\<rparr>"
    by (rule parseDataURL_jpg)
next
  assume "CHR '';'' \<notin> set M \<and> M \<noteq> ''image/jpg''"
  then show "\<exists>d. parseDataURL (''data:'' @ M @ '';base64,'' @ X)
                   = Some \<lparr>mediaType = M, data = d\<rparr> \<and> (CHR '','' \<notin> set M \<longrightarrow> d = X)"
    using parseDataURL_other [of M X] by simp
next
  assume "parseDataURL s = Some p"
  then show "mediaType p = (if substring s 5 (indexOf s (CHR '';'')) = ''image/jpg''
                            then ''image/jpeg'' else substring s 5 (indexOf s (CHR '';'')))"
    by (auto simp add: parseDataURL_def Let_def split: if_splits)
next
  assume "parseDataURL s = Some p"
  then show "data p = substringFrom s (indexOf s (CHR '','') + 1)"
    by (auto simp add: parseDataURL_def Let_def split: if_splits)
qed

theorem parseDataURL_jpg_alias_witness:
  "parseDataURL ''data:image/jpg;base64,AAAA'' = Some \<lparr>mediaType = ''image/jpeg'', data = ''AAAA''\<rparr>
   \<and> parseDataURL ''data:image/png;base64,AAAA''
       = Some \<lparr>mediaType = ''image/png'', data = ''AAAA''\<rparr>"
  using parseDataURL_jpg_alias [of "''AAAA''" "''image/png''"] by simp

section \<open>Shift classification: properties\<close>

lemma orElse_string: "orElse (Some (JStr s)) (JStr []) = JStr s"
  by simp

text \<open>
  C8. The classification of a string depends on its lower-cased text only. A graveyard
  keyword decides first, whatever else the text contains, so a text with both \<open>night\<close>
  and \<open>pm\<close> is \<open>graveyard\<close>; without one, an afternoon keyword gives \<open>afternoon\<close>;
  a text with no keyword, the empty text and a missing or null value give \<open>day\<close>.
\<close>

theorem normalizeShiftType_priority:
  "(toLowerCase s = toLowerCase t \<longrightarrow>
      normalizeShiftType env (Some (JStr s)) = normalizeShiftType env (Some (JStr t)))
   \<and> (includes_str (toLowerCase s) ''grave'' \<or> includes_str (toLowerCase s) ''night''
        \<or> includes_str (toLowerCase s) ''mid'' \<longrightarrow>
      normalizeShiftType env (Some (JStr s)) = Inr graveyard)
   \<and> (includes_str (toLowerCase s) ''night'' \<and> includes_str (toLowerCase s) ''pm'' \<longrightarrow>
      normalizeShiftType env (Some (JStr s)) = Inr graveyard)
   \<and> (\<not> includes_str (toLowerCase s) ''grave'' \<and> \<not> includes_str (toLowerCase s) ''night''
        \<and> \<not> includes_str (toLowerCase s) ''mid''
        \<and> (includes_str (toLowerCase s) ''after'' \<or> includes_str (toLowerCase s) ''evening''
             \<or> includes_str (toLowerCase s) ''pm'' \<or> includes_str (toLowerCase s) ''swing'') \<longrightarrow>
      normalizeShiftType env (Some (JStr s)) = Inr afternoon)
   \<and> (\<not> includes_str (toLowerCase s) ''grave'' \<and> \<not> includes_str (toLowerCase s) ''night''
        \<and> \<not> includes_str (toLowerCase s) ''mid'' \<and> \<not> includes_str (toLowerCase s) ''after''
        \<and> \<not> includes_str (toLowerCase s) ''evening'' \<and> \<not> includes_str (toLowerCase s) ''pm''
        \<and> \<not> includes_str (toLowerCase s) ''swing'' \<longrightarrow>
      normalizeShiftType env (Some (JStr s)) = Inr day)
   \<and> normalizeShiftType env (Some (JStr [])) = Inr day
   \<and> normalizeShiftType env None = Inr day
   \<and> normalizeShiftType env (Some JNull) = Inr day"
  unfolding normalizeShiftType_def orElse_string
  by (simp add: classifyShift_def toLowerCase_def)

theorem normalizeShiftType_priority_witness:
  "toLowerCase ''Night PM'' = toLowerCase ''NIGHT pm''
   \<and> includes_str (toLowerCase ''Night PM'') ''night''
   \<and> includes_str (toLowerCase ''Night PM'') ''pm''
   \<and> normalizeShiftType (scenario [] [] (Inl NonErr) [] (Inl NonErr)) (Some (JStr ''Night PM''))
       = Inr graveyard
   \<and> normalizeShiftType (scenario [] [] (Inl NonErr) [] (Inl NonErr)) (Some (JStr ''NIGHT pm''))
       = Inr graveyard"
  using normalizeShiftType_priority
          [of "''Night PM''" "''NIGHT pm''" "scenario [] [] (Inl NonErr) [] (Inl NonErr)"]
  by (auto simp add: toLowerCase_def toLowerChar_def)

section \<open>Fallback to the backup service: properties\<close>

lemma tryCatch_throws: "body calls = (Inl e, callsA) \<Longrightarrow> tryCatch body handler calls = handler e callsA"
  by (simp add: tryCatch_def)

lemma tryCatch_returns: "body calls = (Inr x, callsA) \<Longrightarrow> tryCatch body handler calls = (Inr x, callsA)"
  by (simp add: tryCatch_def)

lemma callClaude_run:
  "callClaude env apiKey prompt img calls
     = (bindE (CapacitorHttp_post env \<lparr>x_api_key = apiKey, content = claudeContent prompt img\<rparr>)
          (claudeText env),
        calls @ [ClaudePost \<lparr>x_api_key = apiKey, content = claudeContent prompt img\<rparr>])"
  by (simp add: callClaude_def bindIO_def postIO_def liftE_def bindE_def split: sum.splits)

lemma callGemini_run:
  "callGemini env apiKey prompt img calls
     = (bindE (fetch env \<lparr>key = apiKey, parts = geminiParts prompt img\<rparr>) (geminiText env),
        calls @ [GeminiFetch \<lparr>key = apiKey, parts = geminiParts prompt img\<rparr>])"
  by (simp add: callGemini_def bindIO_def fetchIO_def liftE_def bindE_def split: sum.splits)

lemma timesheetPrimary_run:
  "timesheetPrimary env apiKey prompt img calls
     = (bindE (bindE (CapacitorHttp_post env \<lparr>x_api_key = apiKey, content = claudeContent prompt img\<rparr>)
                 (claudeText env))
          (\<lambda>response. timesheetFromResponse env (JStr response)),
        calls @ [ClaudePost \<lparr>x_api_key = apiKey, content = claudeContent prompt img\<rparr>])"
  by (simp add: timesheetPrimary_def bindIO_def callClaude_run liftE_def bindE_def split: sum.splits)

lemma timesheetBackup_run:
  "timesheetBackup env prompt img calls
     = (if getGeminiApiKey env None = [] then (Inl (Err ''No Gemini API key available''), calls)
        else (bindE (bindE (fetch env \<lparr>key = getGeminiApiKey env None, parts = geminiParts prompt img\<rparr>)
                       (geminiText env))
                (timesheetFromResponse env),
              calls @ [GeminiFetch \<lparr>key = getGeminiApiKey env None, parts = geminiParts prompt img\<rparr>]))"
  by (simp add: timesheetBackup_def Let_def throwIO_def bindIO_def callGemini_run liftE_def bindE_def
           split: sum.splits)

lemma schedulePrimary_run:
  "schedulePrimary env apiKey prompt img calls
     = (bindE (bindE (CapacitorHttp_post env \<lparr>x_api_key = apiKey, content = claudeContent prompt (Some img)\<rparr>)
                 (claudeText env))
          (\<lambda>response. scheduleFromResponse env (JStr response)),
        calls @ [ClaudePost \<lparr>x_api_key = apiKey, content = claudeContent prompt (Some img)\<rparr>])"
  by (simp add: schedulePrimary_def bindIO_def callClaude_run liftE_def bindE_def split: sum.splits)

lemma scheduleBackup_run:
  "scheduleBackup env prompt img calls
     = (if getGeminiApiKey env None = [] then (Inl (Err ''No Gemini API key available''), calls)
        else (bindE (bindE (fetch env \<lparr>key = getGeminiApiKey env None, parts = geminiParts prompt (Some img)\<rparr>)
                       (geminiText env))
                (scheduleFromResponse env),
              calls @ [GeminiFetch \<lparr>key = getGeminiApiKey env None, parts = geminiParts prompt (Some img)\<rparr>]))"
  by (simp add: scheduleBackup_def Let_def throwIO_def bindIO_def callGemini_run liftE_def bindE_def
           split: sum.splits)

text \<open>
  C3. When the primary block throws \<open>error\<close> and the backup block throws as well
  (whatever it throws, the missing backup key included), the timesheet and the
  stat-schedule operation return the failure that carries the message of \<open>error\<close>, the
  primary one; a thrown value that is no \<open>Error\<close> has no message, and the fixed text
  of the operation stands in.
\<close>

theorem double_failure_primary_message:
  "(timesheetPrimary env apiKey (timesheetPromptFor env textContent) img calls = (Inl error, callsA)
      \<and> timesheetBackup env (timesheetPromptFor env textContent) img callsA = (Inl geminiError, callsB)
    \<longrightarrow> parseTimesheetWithAI env apiKey textContent img calls
          = (Inr (Failure (case error of Err m \<Rightarrow> m | NonErr \<Rightarrow> ''Failed to parse timesheet'')), callsB))
   \<and> (schedulePrimary env apiKey (statSchedulePrompt env) imageURL calls = (Inl error, callsA)
      \<and> scheduleBackup env (statSchedulePrompt env) imageURL callsA = (Inl geminiError, callsB)
    \<longrightarrow> parseStatScheduleWithAI env apiKey imageURL calls
          = (Inr (ScheduleFailure
                    (JStr (case error of Err m \<Rightarrow> m | NonErr \<Rightarrow> ''Failed to parse stat schedule''))),
             callsB))"
  by (cases error)
     (simp_all add: parseTimesheetWithAI_def parseStatScheduleWithAI_def Let_def tryCatch_def pureIO_def)


lemma claudeText_reply: "claudeText env \<lparr>status = 200, response_data = JObj [(''content'', JArr [JObj [(''text'', JStr t)]])]\<rparr> = Inr t"
  by (simp add: claudeText_def bindE_def)

lemma geminiText_reply:
  "geminiText env \<lparr>ok = True,
          json_body = Inr (JObj [(''candidates'',
                        JArr [JObj [(''content'',
                                JObj [(''parts'', JArr [JObj [(''text'', JStr t)]])])]])])\<rparr> = Inr (JStr t)"
  by (simp add: geminiText_def bindE_def)

lemma scenario_simps:
  "CapacitorHttp_post (scenario J D P K B) = (\<lambda>req. P)"
  "fetch (scenario J D P K B) = (\<lambda>req. B)"
  "ENV_GEMINI_KEY (scenario J D P K B) = K"
  "JSON_parse (scenario J D P K B) = (\<lambda>s. case map_of J s of Some v \<Rightarrow> Inr v | None \<Rightarrow> Inl ''Unexpected token'')"
  "DateParse (scenario J D P K B) = (\<lambda>s. case map_of D s of Some t \<Rightarrow> Fin t | None \<Rightarrow> NaN)"
  "timesheetPrompt (scenario J D P K B) = ''Extract the timesheet entries.''"
  "paystubPrompt (scenario J D P K B) = ''Extract the paystub.''"
  "statSchedulePrompt (scenario J D P K B) = ''Extract the stat holiday schedule.''"
  "faultMessage (scenario J D P K B) = v8Message"
  "StrNumericLiteral (scenario J D P K B) = (\<lambda>s. NaN)"
  "NumberToString (scenario J D P K B) = (\<lambda>n. ''NaN'')"
  by (simp_all add: scenario_def)

text \<open>
  C2, as amended. When the primary block throws, it has made one call to the primary
  service. Without a backup key the operation returns at once, with no call to the backup
  service, the failure carrying the message of the primary error. With a backup key
  exactly one call to the backup service follows; what the backup block returns is
  returned, and when it throws, the failure with the message of the primary error.
\<close>

theorem backup_once_after_primary_failure:
  "(timesheetPrimary env apiKey (timesheetPromptFor env textContent) img calls = (Inl error, callsA) \<longrightarrow>
      (\<exists>req. callsA = calls @ [ClaudePost req])
      \<and> (getGeminiApiKey env None = [] \<longrightarrow>
           parseTimesheetWithAI env apiKey textContent img calls
             = (Inr (Failure (errorMessage error ''Failed to parse timesheet'')), callsA))
      \<and> (getGeminiApiKey env None \<noteq> [] \<longrightarrow>
           (\<exists>greq out.
               timesheetBackup env (timesheetPromptFor env textContent) img callsA
                 = (out, callsA @ [GeminiFetch greq])
               \<and> key greq = getGeminiApiKey env None
               \<and> parseTimesheetWithAI env apiKey textContent img calls
                   = ((case out of
                         Inr response \<Rightarrow> Inr response
                       | Inl geminiError \<Rightarrow>
                           Inr (Failure (errorMessage error ''Failed to parse timesheet''))),
                      callsA @ [GeminiFetch greq]))))
   \<and> (schedulePrimary env apiKey (statSchedulePrompt env) imageURL calls = (Inl error, callsA) \<longrightarrow>
      (\<exists>req. callsA = calls @ [ClaudePost req])
      \<and> (getGeminiApiKey env None = [] \<longrightarrow>
           parseStatScheduleWithAI env apiKey imageURL calls
             = (Inr (ScheduleFailure (JStr (errorMessage error ''Failed to parse stat schedule''))),
                callsA))
      \<and> (getGeminiApiKey env None \<noteq> [] \<longrightarrow>
           (\<exists>greq out.
               scheduleBackup env (statSchedulePrompt env) imageURL callsA
                 = (out, callsA @ [GeminiFetch greq])
               \<and> key greq = getGeminiApiKey env None
               \<and> parseStatScheduleWithAI env apiKey imageURL calls
                   = ((case out of
                         Inr response \<Rightarrow> Inr response
                       | Inl geminiError \<Rightarrow>
                           Inr (ScheduleFailure
                                  (JStr (errorMessage error ''Failed to parse stat schedule'')))),
                      callsA @ [GeminiFetch greq]))))"
proof (intro conjI impI)
  assume p: "timesheetPrimary env apiKey (timesheetPromptFor env textContent) img calls = (Inl error, callsA)"
  then show "\<exists>req. callsA = calls @ [ClaudePost req]"
    by (auto simp add: timesheetPrimary_run)
  show "parseTimesheetWithAI env apiKey textContent img calls
          = (Inr (Failure (errorMessage error ''Failed to parse timesheet'')), callsA)"
    if "getGeminiApiKey env None = []"
    using p that
    by (simp add: parseTimesheetWithAI_def Let_def tryCatch_def pureIO_def timesheetBackup_run)
  show "\<exists>greq out.
          timesheetBackup env (timesheetPromptFor env textContent) img callsA = (out, callsA @ [GeminiFetch greq])
          \<and> key greq = getGeminiApiKey env None
          \<and> parseTimesheetWithAI env apiKey textContent img calls
              = ((case out of
                    Inr response \<Rightarrow> Inr response
                  | Inl geminiError \<Rightarrow> Inr (Failure (errorMessage error ''Failed to parse timesheet''))),
                 callsA @ [GeminiFetch greq])"
    if "getGeminiApiKey env None \<noteq> []"
    using p that
    by (simp add: parseTimesheetWithAI_def Let_def tryCatch_def pureIO_def timesheetBackup_run
             split: sum.splits)
next
  assume p: "schedulePrimary env apiKey (statSchedulePrompt env) imageURL calls = (Inl error, callsA)"
  then show "\<exists>req. callsA = calls @ [ClaudePost req]"
    by (auto simp add: schedulePrimary_run)
  show "parseStatScheduleWithAI env apiKey imageURL calls
          = (Inr (ScheduleFailure (JStr (errorMessage error ''Failed to parse stat schedule''))), callsA)"
    if "getGeminiApiKey env None = []"
    using p that
    by (simp add: parseStatScheduleWithAI_def Let_def tryCatch_def pureIO_def scheduleBackup_run)
  show "\<exists>greq out.
          scheduleBackup env (statSchedulePrompt env) imageURL callsA = (out, callsA @ [GeminiFetch greq])
          \<and> key greq = getGeminiApiKey env None
          \<and> parseStatScheduleWithAI env apiKey imageURL calls
              = ((case out of
                    Inr response \<Rightarrow> Inr response
                  | Inl geminiError \<Rightarrow>
                      Inr (ScheduleFailure (JStr (errorMessage error ''Failed to parse stat schedule'')))),
                 callsA @ [GeminiFetch greq])"
    if "getGeminiApiKey env None \<noteq> []"
    using p that
    by (simp add: parseStatScheduleWithAI_def Let_def tryCatch_def pureIO_def scheduleBackup_run
             split: sum.splits)
qed


lemma timesheetPromptFor_None: "timesheetPromptFor env None = timesheetPrompt env"
  by (simp add: timesheetPromptFor_def)

lemma claudeContent_None: "claudeContent prompt None = [TextPart prompt]"
  by (simp add: claudeContent_def)

lemma geminiParts_None: "geminiParts prompt None = [TextOnly prompt]"
  by (simp add: geminiParts_def)

lemma getGeminiApiKey_None: "getGeminiApiKey env None = ENV_GEMINI_KEY env"
  by (simp add: getGeminiApiKey_def)

theorem double_failure_primary_message_witness:
  "parseTimesheetWithAI
     (scenario [] [] (Inl (Err ''primary down'')) ''backup-key'' (Inl (Err ''backup down'')))
     ''k'' None None []
   = (Inr (Failure ''primary down''),
      [ClaudePost \<lparr>x_api_key = ''k'', content = [TextPart ''Extract the timesheet entries.'']\<rparr>,
       GeminiFetch \<lparr>key = ''backup-key'', parts = [TextOnly ''Extract the timesheet entries.'']\<rparr>])"
proof -
  let ?env = "scenario [] [] (Inl (Err ''primary down'')) ''backup-key'' (Inl (Err ''backup down''))"
  let ?c1 = "[ClaudePost \<lparr>x_api_key = ''k'', content = [TextPart ''Extract the timesheet entries.'']\<rparr>]"
  let ?c2 = "?c1 @ [GeminiFetch \<lparr>key = ''backup-key'', parts = [TextOnly ''Extract the timesheet entries.'']\<rparr>]"
  have p: "timesheetPrimary ?env ''k'' (timesheetPromptFor ?env None) None [] = (Inl (Err ''primary down''), ?c1)"
    by (simp add: timesheetPrimary_run timesheetPromptFor_None claudeContent_None scenario_simps bindE_def)
  have b: "timesheetBackup ?env (timesheetPromptFor ?env None) None ?c1 = (Inl (Err ''backup down''), ?c2)"
    by (simp add: timesheetBackup_run timesheetPromptFor_None geminiParts_None getGeminiApiKey_None
          scenario_simps bindE_def)
  show ?thesis
    using double_failure_primary_message
            [where env = ?env and apiKey = "''k''" and textContent = None and img = None and calls = "[]"
               and error = "Err ''primary down''" and callsA = ?c1
               and geminiError = "Err ''backup down''" and callsB = ?c2]
          p b
    by simp
qed


lemmas string_evals = trim_def isWhiteSpace_def stripFence_def startsWith_def endsWith_def Let_def

lemma empty_array_reply:
  "timesheetFromResponse (scenario sampleTexts D P K B) (JStr ''[]'') = Inr (Success (Entries []))"
  by (simp add: timesheetFromResponse_def extractJSON_def string_evals parseJSON_def scenario_simps
        sampleTexts_def validEntries_def bindE_def)

text \<open>
  C2 as stated fails: with no backup key the failure carries the message of the primary
  error, not the text \<open>No Gemini API key available\<close>, which the inner handler drops.
\<close>

theorem no_backup_key_message_counterexample:
  "parseTimesheetWithAI (scenario [] [] (Inl (Err ''primary down'')) [] (Inl NonErr)) ''k'' None None []
     = (Inr (Failure ''primary down''),
        [ClaudePost \<lparr>x_api_key = ''k'', content = [TextPart ''Extract the timesheet entries.'']\<rparr>])
   \<and> ''primary down'' \<noteq> ''No Gemini API key available''"
  by (simp add: parseTimesheetWithAI_def Let_def tryCatch_def pureIO_def timesheetPrimary_run
        timesheetBackup_run timesheetPromptFor_None claudeContent_None getGeminiApiKey_None
        scenario_simps bindE_def)

theorem backup_once_after_primary_failure_witness:
  "parseTimesheetWithAI
     (scenario sampleTexts sampleDates (Inl (Err ''primary down'')) ''backup-key'' (geminiReply ''[]''))
     ''k'' None None []
   = (Inr (Success (Entries [])),
      [ClaudePost \<lparr>x_api_key = ''k'', content = [TextPart ''Extract the timesheet entries.'']\<rparr>,
       GeminiFetch \<lparr>key = ''backup-key'', parts = [TextOnly ''Extract the timesheet entries.'']\<rparr>])
   \<and> parseStatScheduleWithAI
       (scenario [] [] (Inl (Err ''primary down'')) [] (Inl NonErr)) ''k'' ''data:image/png;base64,AAAA'' []
     = (Inr (ScheduleFailure (JStr ''primary down'')),
        [ClaudePost \<lparr>x_api_key = ''k'',
                     content = [ImagePart ''image/png'' ''AAAA'',
                                TextPart ''Extract the stat holiday schedule.'']\<rparr>])"
proof -
  let ?env = "scenario sampleTexts sampleDates (Inl (Err ''primary down'')) ''backup-key''
                (geminiReply ''[]'')"
  let ?cA = "[ClaudePost \<lparr>x_api_key = ''k'', content = [TextPart ''Extract the timesheet entries.'']\<rparr>]"
  have p: "timesheetPrimary ?env ''k'' (timesheetPromptFor ?env None) None []
             = (Inl (Err ''primary down''), ?cA)"
    by (simp add: timesheetPrimary_run timesheetPromptFor_None claudeContent_None scenario_simps bindE_def)
  have k: "getGeminiApiKey ?env None \<noteq> []"
    by (simp add: getGeminiApiKey_None scenario_simps)
  have b: "timesheetBackup ?env (timesheetPromptFor ?env None) None ?cA
             = (Inr (Success (Entries [])),
                ?cA @ [GeminiFetch \<lparr>key = ''backup-key'',
                                    parts = [TextOnly ''Extract the timesheet entries.'']\<rparr>])"
    by (simp add: timesheetBackup_run timesheetPromptFor_None geminiParts_None getGeminiApiKey_None
          scenario_simps geminiReply_def geminiText_reply empty_array_reply bindE_def)
  have first: "parseTimesheetWithAI ?env ''k'' None None []
                 = (Inr (Success (Entries [])),
                    ?cA @ [GeminiFetch \<lparr>key = ''backup-key'',
                                        parts = [TextOnly ''Extract the timesheet entries.'']\<rparr>])"
    using backup_once_after_primary_failure
            [where env = ?env and apiKey = "''k''" and textContent = None and img = None
               and calls = "[]" and error = "Err ''primary down''" and callsA = ?cA]
          p k b
    by auto
  let ?env2 = "scenario [] [] (Inl (Err ''primary down'')) [] (Inl NonErr)"
  let ?img = "''data:image/png;base64,AAAA''"
  let ?cB = "[ClaudePost \<lparr>x_api_key = ''k'',
                          content = [ImagePart ''image/png'' ''AAAA'',
                                     TextPart ''Extract the stat holiday schedule.'']\<rparr>]"
  have content: "claudeContent ''Extract the stat holiday schedule.'' (Some ?img)
                   = [ImagePart ''image/png'' ''AAAA'', TextPart ''Extract the stat holiday schedule.'']"
    by (simp add: claudeContent_def parseDataURL_def indexOf_def substring_def substringFrom_def)
  have p2: "schedulePrimary ?env2 ''k'' (statSchedulePrompt ?env2) ?img [] = (Inl (Err ''primary down''), ?cB)"
    by (simp add: schedulePrimary_run scenario_simps content bindE_def)
  have k2: "getGeminiApiKey ?env2 None = []"
    by (simp add: getGeminiApiKey_None scenario_simps)
  have second: "parseStatScheduleWithAI ?env2 ''k'' ?img [] = (Inr (ScheduleFailure (JStr ''primary down'')), ?cB)"
    using backup_once_after_primary_failure
            [where env = ?env2 and apiKey = "''k''" and imageURL = ?img
               and calls = "[]" and error = "Err ''primary down''" and callsA = ?cB]
          p2 k2
    by simp
  show ?thesis using first second by simp
qed

section \<open>Timesheet entries: properties\<close>

lemma keepEntry_Inr: "keepEntry env x = Inr b \<Longrightarrow> b = hasDateAndHours x"
  by (cases x)
     (auto simp add: keepEntry_def hasDateAndHours_def bindE_def throwTypeError_def split: if_splits)

lemma filterE_keepEntry:
  assumes "filterE (keepEntry env) es = Inr ys"
  shows "ys = filter hasDateAndHours es"
  using assms
proof (induction es arbitrary: ys)
  case Nil
  then show ?case by simp
next
  case (Cons e es)
  from Cons.prems obtain b zs where b: "keepEntry env e = Inr b"
    and zs: "filterE (keepEntry env) es = Inr zs"
    and ys: "ys = (if b then e # zs else zs)"
    by (auto simp add: bindE_def split: sum.splits)
  have "b = hasDateAndHours e" using b by (rule keepEntry_Inr)
  moreover have "zs = filter hasDateAndHours es" using zs by (rule Cons.IH)
  ultimately show ?case using ys by simp
qed

lemma mapE_Inr: "mapE f xs = Inr ys \<Longrightarrow> list_all2 (\<lambda>x y. f x = Inr y) xs ys"
proof (induction xs arbitrary: ys)
  case Nil
  then show ?case by simp
next
  case (Cons x xs)
  from Cons.prems obtain y zs where "f x = Inr y" "mapE f xs = Inr zs" "ys = y # zs"
    by (auto simp add: bindE_def split: sum.splits)
  then show ?case using Cons.IH by simp
qed

lemma digitChar_not_T: "digitChar n \<noteq> CHR ''T''"
proof -
  have "digitChar n \<in> set ''0123456789''"
    unfolding digitChar_def by (rule nth_mem) simp
  then show ?thesis by auto
qed


lemma padDigits_Suc_head: "\<exists>c cs. padDigits (Suc w) n = c # cs \<and> c \<noteq> CHR ''T''"
proof (induction w arbitrary: n)
  case 0
  then show ?case by (simp add: digitChar_not_T)
next
  case (Suc w)
  from Suc [of "n div 10"] obtain c cs where "padDigits (Suc w) (n div 10) = c # cs" "c \<noteq> CHR ''T''"
    by blast
  then show ?case by simp
qed

lemma yearString_head: "\<exists>c cs. yearString y = c # cs \<and> c \<noteq> CHR ''T''"
proof (cases "0 \<le> y \<and> y \<le> 9999")
  case True
  have e: "(4::nat) = Suc 3" by simp
  have "\<exists>c cs. padDigits 4 (nat y) = c # cs \<and> c \<noteq> CHR ''T''"
    unfolding e by (rule padDigits_Suc_head)
  then show ?thesis using True by (simp add: yearString_def)
next
  case False
  then show ?thesis by (simp add: yearString_def)
qed


lemma isoDate_nonempty: "takeWhile (\<lambda>c. c \<noteq> CHR ''T'') (toISOString t) \<noteq> []"
proof -
  obtain y m d where civil: "civilFromDays (t div 86400000) = (y, m, d)"
    by (cases "civilFromDays (t div 86400000)") auto
  obtain c cs where ys: "yearString y = c # cs" and c: "c \<noteq> CHR ''T''"
    using yearString_head by blast
  show ?thesis
    unfolding toISOString_def Let_def civil by (simp add: ys c)
qed

lemma normalizeDate_truthy:
  assumes "normalizeDate env d = Inr nd" and "truthyOpt d"
  shows "truthyOpt nd"
proof -
  from assms(1) obtain dt where "newDate env d = Inr dt"
    and nd: "nd = (case dt of Some t \<Rightarrow> Some (JStr (takeWhile (\<lambda>c. c \<noteq> CHR ''T'') (toISOString t)))
                   | None \<Rightarrow> d)"
    by (auto simp add: normalizeDate_def bindE_def split: sum.splits option.splits)
  show ?thesis
    unfolding nd using assms(2) by (cases dt) (simp_all add: isoDate_nonempty)
qed

lemma hasDateAndHours_obj: "hasDateAndHours e \<Longrightarrow> \<exists>kvs. e = JObj kvs"
  by (cases e) (simp_all add: hasDateAndHours_def)

lemma normalizeEntry_obj:
  assumes "normalizeEntry env (JObj kvs) = Inr r"
  shows "\<exists>nd ns n en.
           normalizeDate env (map_of kvs ''date'') = Inr nd
         \<and> normalizeShiftType env (map_of kvs ''shift_type'') = Inr ns
         \<and> ToNumber env (map_of kvs ''hours'') = Inr n
         \<and> (if truthyOpt (map_of kvs ''earnings'')
             then bindE (ToNumber env (map_of kvs ''earnings'')) (\<lambda>x. Inr (Some x))
             else Inr None) = Inr en
         \<and> date r = nd \<and> shift_type r = ns
         \<and> hours r = (if numTruthy n then n else Fin 8)
         \<and> job_name r = orElse (map_of kvs ''job_name'') (JStr ''Imported'')
         \<and> earnings r = en"
  using assms
  by (auto simp add: normalizeEntry_def bindE_def split: sum.splits)


lemma bindE_Inr: "bindE m f = Inr y \<longleftrightarrow> (\<exists>x. m = Inr x \<and> f x = Inr y)"
  by (cases m) (simp_all add: bindE_def)

lemma validEntries_Inr:
  assumes "validEntries env entries = Inr es"
  shows "\<exists>src. entries = JArr src
           \<and> list_all2 (\<lambda>e r. normalizeEntry env e = Inr r) (filter hasDateAndHours src) es"
proof (cases entries)
  case (JArr src)
  with assms obtain kept where k: "filterE (keepEntry env) src = Inr kept"
    and m: "mapE (normalizeEntry env) kept = Inr es"
    by (auto simp add: validEntries_def bindE_Inr)
  from k have "kept = filter hasDateAndHours src" by (rule filterE_keepEntry)
  with m JArr show ?thesis by (auto dest: mapE_Inr)
qed (use assms in \<open>simp_all add: validEntries_def throwTypeError_def\<close>)

lemma timesheetFromResponse_entries:
  assumes "timesheetFromResponse env response = Inr (Success (Entries es))"
  shows "\<exists>reply src. response = JStr reply
           \<and> JSON_parse env (stripFence reply) = Inr (JArr src)
           \<and> list_all2 (\<lambda>e r. normalizeEntry env e = Inr r) (filter hasDateAndHours src) es"
proof -
  from assms obtain jsonStr entries where x: "extractJSON env response = Inr jsonStr"
    and p: "parseJSON env jsonStr = Inr entries"
    and v: "validEntries env entries = Inr es"
    by (auto simp add: timesheetFromResponse_def bindE_Inr)
  from x obtain reply where reply: "response = JStr reply" and j: "jsonStr = stripFence reply"
    by (cases response) (auto simp add: extractJSON_def throwTypeError_def)
  from validEntries_Inr [OF v] obtain src where src: "entries = JArr src"
    and l: "list_all2 (\<lambda>e r. normalizeEntry env e = Inr r) (filter hasDateAndHours src) es"
    by blast
  from p src j have "JSON_parse env (stripFence reply) = Inr (JArr src)"
    by (auto simp add: parseJSON_def split: sum.splits)
  with reply l show ?thesis by blast
qed

lemma timesheetPrimary_fst:
  "fst (timesheetPrimary env apiKey prompt img calls)
     = bindE (fst (callClaude env apiKey prompt img calls))
         (\<lambda>response. timesheetFromResponse env (JStr response))"
  by (simp add: timesheetPrimary_run callClaude_run)

lemma timesheetBackup_fst:
  "fst (timesheetBackup env prompt img calls)
     = (if getGeminiApiKey env None = [] then Inl (Err ''No Gemini API key available'')
        else bindE (fst (callGemini env (getGeminiApiKey env None) prompt img calls))
               (timesheetFromResponse env))"
  by (simp add: timesheetBackup_run callGemini_run)

lemma parseTimesheet_fst:
  "fst (parseTimesheetWithAI env apiKey textContent img calls)
     = (case fst (timesheetPrimary env apiKey (timesheetPromptFor env textContent) img calls) of
          Inr r \<Rightarrow> Inr r
        | Inl error \<Rightarrow>
            (case fst (timesheetBackup env (timesheetPromptFor env textContent) img
                         (snd (timesheetPrimary env apiKey (timesheetPromptFor env textContent)
                                 img calls))) of
               Inr r \<Rightarrow> Inr r
             | Inl geminiError \<Rightarrow> Inr (Failure (errorMessage error ''Failed to parse timesheet''))))"
  by (simp add: parseTimesheetWithAI_def Let_def tryCatch_def pureIO_def
        split: prod.splits sum.splits)

lemma kept_entries:
  assumes "parseTimesheetWithAI env apiKey textContent img calls
             = (Inr (Success (Entries es)), callsA)"
  shows "\<exists>reply src.
           (fst (callClaude env apiKey (timesheetPromptFor env textContent) img calls) = Inr reply
              \<and> fst (timesheetPrimary env apiKey (timesheetPromptFor env textContent) img calls)
                  = Inr (Success (Entries es))
            \<or> (\<exists>error. fst (timesheetPrimary env apiKey (timesheetPromptFor env textContent) img calls)
                           = Inl error)
              \<and> fst (callGemini env (getGeminiApiKey env None) (timesheetPromptFor env textContent)
                       img (snd (timesheetPrimary env apiKey (timesheetPromptFor env textContent)
                                   img calls)))
                  = Inr (JStr reply))
         \<and> JSON_parse env (stripFence reply) = Inr (JArr src)
         \<and> list_all2 (\<lambda>e r. normalizeEntry env e = Inr r) (filter hasDateAndHours src) es"
proof -
  let ?prompt = "timesheetPromptFor env textContent"
  let ?primary = "timesheetPrimary env apiKey ?prompt img calls"
  from assms have res: "fst (parseTimesheetWithAI env apiKey textContent img calls)
                          = Inr (Success (Entries es))"
    by simp
  show ?thesis
  proof (cases "fst ?primary")
    case (Inr r)
    with res have r: "fst ?primary = Inr (Success (Entries es))"
      by (simp add: parseTimesheet_fst)
    then obtain reply where c: "fst (callClaude env apiKey ?prompt img calls) = Inr reply"
      and f: "timesheetFromResponse env (JStr reply) = Inr (Success (Entries es))"
      by (auto simp add: timesheetPrimary_fst bindE_Inr)
    from timesheetFromResponse_entries [OF f] c r show ?thesis by auto
  next
    case (Inl error)
    with res have b: "fst (timesheetBackup env ?prompt img (snd ?primary))
                        = Inr (Success (Entries es))"
      by (auto simp add: parseTimesheet_fst split: sum.splits)
    then obtain response where
      g: "fst (callGemini env (getGeminiApiKey env None) ?prompt img (snd ?primary)) = Inr response"
      and f: "timesheetFromResponse env response = Inr (Success (Entries es))"
      by (auto simp add: timesheetBackup_fst bindE_Inr split: if_splits)
    from timesheetFromResponse_entries [OF f] g Inl show ?thesis by auto
  qed
qed

text \<open>
  C1, as amended. When \<open>parseTimesheetWithAI\<close> succeeds, its result is built from one
  reply: the reply of the primary service when the primary block returns, the reply of
  the backup service when the primary block throws. The text of that reply, stripped of
  its fence, parses to an array, and the entries returned are, in order, the normalized
  entries of that array that have a truthy \<open>date\<close> and truthy \<open>hours\<close>: an entry missing
  either is left out, and none is repaired. Each returned entry has a truthy (non-empty)
  date, and its hours are \<open>Number\<close> of the source hours when that is neither zero nor
  not-a-number, and 8 otherwise: never zero, never not-a-number, but negative when the
  source is.
\<close>

theorem timesheet_entries_have_date_and_hours:
  assumes "parseTimesheetWithAI env apiKey textContent img calls
             = (Inr (Success (Entries es)), callsA)"
  shows "\<exists>reply src.
           (fst (callClaude env apiKey (timesheetPromptFor env textContent) img calls) = Inr reply
              \<and> fst (timesheetPrimary env apiKey (timesheetPromptFor env textContent) img calls)
                  = Inr (Success (Entries es))
            \<or> (\<exists>error. fst (timesheetPrimary env apiKey (timesheetPromptFor env textContent) img calls)
                           = Inl error)
              \<and> fst (callGemini env (getGeminiApiKey env None) (timesheetPromptFor env textContent)
                       img (snd (timesheetPrimary env apiKey (timesheetPromptFor env textContent)
                                   img calls)))
                  = Inr (JStr reply))
         \<and> JSON_parse env (stripFence reply) = Inr (JArr src)
         \<and> list_all2
               (\<lambda>e r. normalizeEntry env e = Inr r
                     \<and> truthyOpt (date r) \<and> numTruthy (hours r)
                     \<and> (\<exists>n. ToNumber env (optProp (Some e) ''hours'') = Inr n
                             \<and> hours r = (if numTruthy n then n else Fin 8)))
               (filter hasDateAndHours src) es"
proof -
  from kept_entries [OF assms] obtain reply src where
    a: "(fst (callClaude env apiKey (timesheetPromptFor env textContent) img calls) = Inr reply
              \<and> fst (timesheetPrimary env apiKey (timesheetPromptFor env textContent) img calls)
                  = Inr (Success (Entries es))
            \<or> (\<exists>error. fst (timesheetPrimary env apiKey (timesheetPromptFor env textContent) img calls)
                           = Inl error)
              \<and> fst (callGemini env (getGeminiApiKey env None) (timesheetPromptFor env textContent)
                       img (snd (timesheetPrimary env apiKey (timesheetPromptFor env textContent)
                                   img calls)))
                  = Inr (JStr reply))"
    and t: "JSON_parse env (stripFence reply) = Inr (JArr src)"
    and l: "list_all2 (\<lambda>e r. normalizeEntry env e = Inr r) (filter hasDateAndHours src) es"
    by blast
  have elem: "truthyOpt (date r) \<and> numTruthy (hours r)
          \<and> (\<exists>n. ToNumber env (optProp (Some e) ''hours'') = Inr n
                  \<and> hours r = (if numTruthy n then n else Fin 8))"
    if e: "e \<in> set (filter hasDateAndHours src)" and r: "normalizeEntry env e = Inr r" for e r
  proof -
    from e have h: "hasDateAndHours e" by simp
    then obtain kvs where kvs: "e = JObj kvs" using hasDateAndHours_obj by blast
    from normalizeEntry_obj [OF r [unfolded kvs]] obtain nd n where
      nd: "normalizeDate env (map_of kvs ''date'') = Inr nd" and
      n: "ToNumber env (map_of kvs ''hours'') = Inr n" and
      d: "date r = nd" and hr: "hours r = (if numTruthy n then n else Fin 8)"
      by blast
    from h kvs have "truthyOpt (map_of kvs ''date'')" by (simp add: hasDateAndHours_def)
    with nd have "truthyOpt nd" by (rule normalizeDate_truthy)
    with d n hr kvs show ?thesis by auto
  qed
  have "list_all2
               (\<lambda>e r. normalizeEntry env e = Inr r
                     \<and> truthyOpt (date r) \<and> numTruthy (hours r)
                     \<and> (\<exists>n. ToNumber env (optProp (Some e) ''hours'') = Inr n
                             \<and> hours r = (if numTruthy n then n else Fin 8)))
               (filter hasDateAndHours src) es"
    by (rule list.rel_mono_strong [OF l]) (use elem in blast)
  with a t show ?thesis by blast
qed

text \<open>
  C10, as amended. Of the array parsed from the reply the result is built from, each
  entry that survives the filter comes back with no earnings when its source earnings
  are falsy (0, the empty string, \<open>null\<close>, missing), and with \<open>Number\<close> of the source
  earnings when they are truthy. Source earnings that are a number never come back as 0;
  a truthy value of another type comes back as whatever it converts to.
\<close>

theorem timesheet_earnings_forwarded:
  assumes "parseTimesheetWithAI env apiKey textContent img calls
             = (Inr (Success (Entries es)), callsA)"
  shows "\<exists>reply src.
           (fst (callClaude env apiKey (timesheetPromptFor env textContent) img calls) = Inr reply
              \<and> fst (timesheetPrimary env apiKey (timesheetPromptFor env textContent) img calls)
                  = Inr (Success (Entries es))
            \<or> (\<exists>error. fst (timesheetPrimary env apiKey (timesheetPromptFor env textContent) img calls)
                           = Inl error)
              \<and> fst (callGemini env (getGeminiApiKey env None) (timesheetPromptFor env textContent)
                       img (snd (timesheetPrimary env apiKey (timesheetPromptFor env textContent)
                                   img calls)))
                  = Inr (JStr reply))
         \<and> JSON_parse env (stripFence reply) = Inr (JArr src)
         \<and> list_all2
               (\<lambda>e r. normalizeEntry env e = Inr r
                     \<and> (\<not> truthyOpt (optProp (Some e) ''earnings'') \<longrightarrow> earnings r = None)
                     \<and> (truthyOpt (optProp (Some e) ''earnings'') \<longrightarrow>
                          (\<exists>n. ToNumber env (optProp (Some e) ''earnings'') = Inr n
                               \<and> earnings r = Some n))
                     \<and> (\<forall>q. optProp (Some e) ''earnings'' = Some (JNum q) \<longrightarrow>
                              earnings r \<noteq> Some (Fin 0)))
               (filter hasDateAndHours src) es"
proof -
  from kept_entries [OF assms] obtain reply src where
    a: "(fst (callClaude env apiKey (timesheetPromptFor env textContent) img calls) = Inr reply
              \<and> fst (timesheetPrimary env apiKey (timesheetPromptFor env textContent) img calls)
                  = Inr (Success (Entries es))
            \<or> (\<exists>error. fst (timesheetPrimary env apiKey (timesheetPromptFor env textContent) img calls)
                           = Inl error)
              \<and> fst (callGemini env (getGeminiApiKey env None) (timesheetPromptFor env textContent)
                       img (snd (timesheetPrimary env apiKey (timesheetPromptFor env textContent)
                                   img calls)))
                  = Inr (JStr reply))"
    and t: "JSON_parse env (stripFence reply) = Inr (JArr src)"
    and l: "list_all2 (\<lambda>e r. normalizeEntry env e = Inr r) (filter hasDateAndHours src) es"
    by blast
  have elem: "(\<not> truthyOpt (optProp (Some e) ''earnings'') \<longrightarrow> earnings r = None)
          \<and> (truthyOpt (optProp (Some e) ''earnings'') \<longrightarrow>
               (\<exists>n. ToNumber env (optProp (Some e) ''earnings'') = Inr n \<and> earnings r = Some n))
          \<and> (\<forall>q. optProp (Some e) ''earnings'' = Some (JNum q) \<longrightarrow> earnings r \<noteq> Some (Fin 0))"
    if e: "e \<in> set (filter hasDateAndHours src)" and r: "normalizeEntry env e = Inr r" for e r
  proof -
    from e obtain kvs where kvs: "e = JObj kvs" using hasDateAndHours_obj by auto
    from normalizeEntry_obj [OF r [unfolded kvs]] obtain en where
      en: "(if truthyOpt (map_of kvs ''earnings'')
            then bindE (ToNumber env (map_of kvs ''earnings'')) (\<lambda>x. Inr (Some x))
            else Inr None) = Inr en" and ea: "earnings r = en"
      by blast
    show ?thesis
    proof (cases "truthyOpt (map_of kvs ''earnings'')")
      case True
      with en obtain n where n: "ToNumber env (map_of kvs ''earnings'') = Inr n" "en = Some n"
        by (auto simp add: bindE_Inr)
      with True ea kvs show ?thesis by auto
    next
      case False
      with en ea kvs show ?thesis by auto
    qed
  qed
  have "list_all2
               (\<lambda>e r. normalizeEntry env e = Inr r
                     \<and> (\<not> truthyOpt (optProp (Some e) ''earnings'') \<longrightarrow> earnings r = None)
                     \<and> (truthyOpt (optProp (Some e) ''earnings'') \<longrightarrow>
                          (\<exists>n. ToNumber env (optProp (Some e) ''earnings'') = Inr n
                               \<and> earnings r = Some n))
                     \<and> (\<forall>q. optProp (Some e) ''earnings'' = Some (JNum q) \<longrightarrow>
                              earnings r \<noteq> Some (Fin 0)))
               (filter hasDateAndHours src) es"
    by (rule list.rel_mono_strong [OF l]) (use elem in blast)
  with a t show ?thesis by blast
qed

section \<open>Timesheet scenarios\<close>

lemma padDigits_2: "padDigits 2 n = [digitChar (n div 10), digitChar n]"
proof -
  have e: "(2::nat) = Suc (Suc 0)" by simp
  show ?thesis unfolding e by simp
qed

lemma padDigits_3: "padDigits 3 n = [digitChar (n div 10 div 10), digitChar (n div 10), digitChar n]"
proof -
  have e: "(3::nat) = Suc (Suc (Suc 0))" by simp
  show ?thesis unfolding e by simp
qed

lemma padDigits_4:
  "padDigits 4 n = [digitChar (n div 10 div 10 div 10), digitChar (n div 10 div 10),
                    digitChar (n div 10), digitChar n]"
proof -
  have e: "(4::nat) = Suc (Suc (Suc (Suc 0)))" by simp
  show ?thesis unfolding e by simp
qed

lemma civil_sample: "civilFromDays 19737 = (2024, 1, 15)"
  by code_simp

lemma iso_sample: "toISOString 1705276800000 = ''2024-01-15T00:00:00.000Z''"
proof -
  have d: "(1705276800000::int) div 86400000 = 19737" by simp
  have m: "nat (1705276800000 mod 86400000) = 0" by simp
  show ?thesis
    unfolding toISOString_def Let_def d m civil_sample
    by (simp add: yearString_def padDigits_2 padDigits_3 padDigits_4 digitChar_def)
qed

lemma sample_date:
  "normalizeDate (scenario J sampleDates P K B) (Some (JStr ''2024-01-15'')) = Inr (Some (JStr ''2024-01-15''))"
  by (simp add: normalizeDate_def scenario_simps sampleDates_def bindE_def truncRat_def iso_sample)

lemma shift_missing: "normalizeShiftType env None = Inr day"
  by (simp add: normalizeShiftType_def classifyShift_def toLowerCase_def)

lemma night_shift: "normalizeShiftType env (Some (JStr ''Night Shift'')) = Inr graveyard"
  by (simp add: normalizeShiftType_def classifyShift_def toLowerCase_def toLowerChar_def)

lemma number_of_digit_texts:
  "StringToNumber env ''0'' = Fin 0" "StringToNumber env ''6'' = Fin 6"
  by (simp_all add: StringToNumber_def trim_def isWhiteSpace_def isDigit_def digitsValue_def)

lemma negative_hours_entries:
  "validEntries (scenario J sampleDates P K B)
     (JArr [JObj [(''date'', JStr ''2024-01-15''), (''hours'', JNum (Fin (- 5)))]])
   = Inr [\<lparr>date = Some (JStr ''2024-01-15''), shift_type = day, hours = Fin (- 5),
           job_name = JStr ''Imported'', earnings = None, rest = []\<rparr>]"
  by (simp add: validEntries_def keepEntry_def normalizeEntry_def bindE_def sample_date shift_missing)

lemma zero_text_earnings_entries:
  "validEntries (scenario J sampleDates P K B)
     (JArr [JObj [(''date'', JStr ''2024-01-15''), (''hours'', JNum (Fin 8)),
                  (''earnings'', JStr ''0'')]])
   = Inr [\<lparr>date = Some (JStr ''2024-01-15''), shift_type = day, hours = Fin 8,
           job_name = JStr ''Imported'', earnings = Some (Fin 0), rest = []\<rparr>]"
  by (simp add: validEntries_def keepEntry_def normalizeEntry_def bindE_def sample_date shift_missing
        number_of_digit_texts)

lemma numeric_earnings_entries:
  "validEntries (scenario J sampleDates P K B)
     (JArr [JObj [(''date'', JStr ''2024-01-15''), (''hours'', JNum (Fin 8)),
                  (''earnings'', JNum (Fin 450))],
            JObj [(''date'', JStr ''2024-01-15''), (''hours'', JNum (Fin 4)),
                  (''earnings'', JNum (Fin 0))]])
   = Inr [\<lparr>date = Some (JStr ''2024-01-15''), shift_type = day, hours = Fin 8,
           job_name = JStr ''Imported'', earnings = Some (Fin 450), rest = []\<rparr>,
          \<lparr>date = Some (JStr ''2024-01-15''), shift_type = day, hours = Fin 4,
           job_name = JStr ''Imported'', earnings = None, rest = []\<rparr>]"
  by (simp add: validEntries_def keepEntry_def normalizeEntry_def bindE_def sample_date shift_missing)

lemma night_shift_entries:
  "validEntries (scenario J sampleDates P K B)
     (JArr [JObj [(''date'', JStr ''2024-01-15''), (''shift_type'', JStr ''Night Shift''),
                  (''hours'', JStr ''6''), (''job_name'', JStr [])],
            JObj [(''date'', JStr ''2024-01-16'')]])
   = Inr [\<lparr>date = Some (JStr ''2024-01-15''), shift_type = graveyard, hours = Fin 6,
           job_name = JStr ''Imported'', earnings = None, rest = []\<rparr>]"
  by (simp add: validEntries_def keepEntry_def normalizeEntry_def bindE_def sample_date night_shift
        number_of_digit_texts)

lemma primary_reply_timesheet:
  "parseTimesheetWithAI (scenario J D (claudeReply t) K B) apiKey None None []
   = (case timesheetFromResponse (scenario J D (claudeReply t) K B) (JStr t) of
        Inr r \<Rightarrow> (Inr r, [ClaudePost \<lparr>x_api_key = apiKey,
                                      content = [TextPart ''Extract the timesheet entries.'']\<rparr>])
      | Inl e \<Rightarrow>
          tryCatch (timesheetBackup (scenario J D (claudeReply t) K B) ''Extract the timesheet entries.'' None)
            (\<lambda>geminiError. pureIO (Failure (errorMessage e ''Failed to parse timesheet'')))
            [ClaudePost \<lparr>x_api_key = apiKey,
                         content = [TextPart ''Extract the timesheet entries.'']\<rparr>])"
  by (simp add: parseTimesheetWithAI_def Let_def tryCatch_def timesheetPrimary_run
        timesheetPromptFor_None claudeContent_None scenario_simps claudeReply_def claudeText_reply
        bindE_def split: sum.splits)

text \<open>
  C1 as stated fails: an entry whose hours are \<open>-5\<close> is kept, with hours \<open>-5\<close>, which
  is not a positive value.
\<close>

theorem negative_hours_counterexample:
  \<open>parseTimesheetWithAI
     (scenario sampleTexts sampleDates (claudeReply ''[{"date":"2024-01-15","hours":-5}]'') []
        (Inl NonErr))
     ''k'' None None []
   = (Inr (Success (Entries
        [\<lparr>date = Some (JStr ''2024-01-15''), shift_type = day, hours = Fin (- 5),
          job_name = JStr ''Imported'', earnings = None, rest = []\<rparr>])),
      [ClaudePost \<lparr>x_api_key = ''k'', content = [TextPart ''Extract the timesheet entries.'']\<rparr>])
   \<and> \<not> (0::rat) < - 5\<close>
  by (simp add: primary_reply_timesheet timesheetFromResponse_def extractJSON_def string_evals
        parseJSON_def scenario_simps sampleTexts_def negative_hours_entries bindE_def)

text \<open>
  C10 as stated fails: the text \<open>"0"\<close> is truthy and converts to 0, so the returned
  entry carries earnings of 0.
\<close>

theorem zero_earnings_counterexample:
  \<open>parseTimesheetWithAI
     (scenario sampleTexts sampleDates
        (claudeReply ''[{"date":"2024-01-15","hours":8,"earnings":"0"}]'') [] (Inl NonErr))
     ''k'' None None []
   = (Inr (Success (Entries
        [\<lparr>date = Some (JStr ''2024-01-15''), shift_type = day, hours = Fin 8,
          job_name = JStr ''Imported'', earnings = Some (Fin 0), rest = []\<rparr>])),
      [ClaudePost \<lparr>x_api_key = ''k'', content = [TextPart ''Extract the timesheet entries.'']\<rparr>])\<close>
  by (simp add: primary_reply_timesheet timesheetFromResponse_def extractJSON_def string_evals
        parseJSON_def scenario_simps sampleTexts_def zero_text_earnings_entries bindE_def)

theorem timesheet_entries_have_date_and_hours_witness:
  \<open>parseTimesheetWithAI (scenario sampleTexts sampleDates
        (claudeReply (''```json'' @ [CHR 0x0A]
           @ ''[{"date":"2024-01-15","shift_type":"Night Shift","hours":"6","job_name":""},{"date":"2024-01-16"}]''
           @ [CHR 0x0A] @ ''```''))
        [] (Inl NonErr)) ''k'' None None []
   = (Inr (Success (Entries [\<lparr>date = Some (JStr ''2024-01-15''), shift_type = graveyard, hours = Fin 6,
          job_name = JStr ''Imported'', earnings = None, rest = []\<rparr>])),
      [ClaudePost \<lparr>x_api_key = ''k'', content = [TextPart ''Extract the timesheet entries.'']\<rparr>])
   \<and> (\<exists>reply src.
           (fst (callClaude (scenario sampleTexts sampleDates
        (claudeReply (''```json'' @ [CHR 0x0A]
           @ ''[{"date":"2024-01-15","shift_type":"Night Shift","hours":"6","job_name":""},{"date":"2024-01-16"}]''
           @ [CHR 0x0A] @ ''```''))
        [] (Inl NonErr)) ''k'' (timesheetPromptFor (scenario sampleTexts sampleDates
        (claudeReply (''```json'' @ [CHR 0x0A]
           @ ''[{"date":"2024-01-15","shift_type":"Night Shift","hours":"6","job_name":""},{"date":"2024-01-16"}]''
           @ [CHR 0x0A] @ ''```''))
        [] (Inl NonErr)) None) None []) = Inr reply
              \<and> fst (timesheetPrimary (scenario sampleTexts sampleDates
        (claudeReply (''```json'' @ [CHR 0x0A]
           @ ''[{"date":"2024-01-15","shift_type":"Night Shift","hours":"6","job_name":""},{"date":"2024-01-16"}]''
           @ [CHR 0x0A] @ ''```''))
        [] (Inl NonErr)) ''k'' (timesheetPromptFor (scenario sampleTexts sampleDates
        (claudeReply (''```json'' @ [CHR 0x0A]
           @ ''[{"date":"2024-01-15","shift_type":"Night Shift","hours":"6","job_name":""},{"date":"2024-01-16"}]''
           @ [CHR 0x0A] @ ''```''))
        [] (Inl NonErr)) None) None [])
                  = Inr (Success (Entries [\<lparr>date = Some (JStr ''2024-01-15''), shift_type = graveyard, hours = Fin 6,
          job_name = JStr ''Imported'', earnings = None, rest = []\<rparr>]))
            \<or> (\<exists>error. fst (timesheetPrimary (scenario sampleTexts sampleDates
        (claudeReply (''```json'' @ [CHR 0x0A]
           @ ''[{"date":"2024-01-15","shift_type":"Night Shift","hours":"6","job_name":""},{"date":"2024-01-16"}]''
           @ [CHR 0x0A] @ ''```''))
        [] (Inl NonErr)) ''k'' (timesheetPromptFor (scenario sampleTexts sampleDates
        (claudeReply (''```json'' @ [CHR 0x0A]
           @ ''[{"date":"2024-01-15","shift_type":"Night Shift","hours":"6","job_name":""},{"date":"2024-01-16"}]''
           @ [CHR 0x0A] @ ''```''))
        [] (Inl NonErr)) None) None [])
                           = Inl error)
              \<and> fst (callGemini (scenario sampleTexts sampleDates
        (claudeReply (''```json'' @ [CHR 0x0A]
           @ ''[{"date":"2024-01-15","shift_type":"Night Shift","hours":"6","job_name":""},{"date":"2024-01-16"}]''
           @ [CHR 0x0A] @ ''```''))
        [] (Inl NonErr)) (getGeminiApiKey (scenario sampleTexts sampleDates
        (claudeReply (''```json'' @ [CHR 0x0A]
           @ ''[{"date":"2024-01-15","shift_type":"Night Shift","hours":"6","job_name":""},{"date":"2024-01-16"}]''
           @ [CHR 0x0A] @ ''```''))
        [] (Inl NonErr)) None) (timesheetPromptFor (scenario sampleTexts sampleDates
        (claudeReply (''```json'' @ [CHR 0x0A]
           @ ''[{"date":"2024-01-15","shift_type":"Night Shift","hours":"6","job_name":""},{"date":"2024-01-16"}]''
           @ [CHR 0x0A] @ ''```''))
        [] (Inl NonErr)) None)
                       None (snd (timesheetPrimary (scenario sampleTexts sampleDates
        (claudeReply (''```json'' @ [CHR 0x0A]
           @ ''[{"date":"2024-01-15","shift_type":"Night Shift","hours":"6","job_name":""},{"date":"2024-01-16"}]''
           @ [CHR 0x0A] @ ''```''))
        [] (Inl NonErr)) ''k'' (timesheetPromptFor (scenario sampleTexts sampleDates
        (claudeReply (''```json'' @ [CHR 0x0A]
           @ ''[{"date":"2024-01-15","shift_type":"Night Shift","hours":"6","job_name":""},{"date":"2024-01-16"}]''
           @ [CHR 0x0A] @ ''```''))
        [] (Inl NonErr)) None)
                                   None [])))
                  = Inr (JStr reply))
         \<and> JSON_parse (scenario sampleTexts sampleDates
        (claudeReply (''```json'' @ [CHR 0x0A]
           @ ''[{"date":"2024-01-15","shift_type":"Night Shift","hours":"6","job_name":""},{"date":"2024-01-16"}]''
           @ [CHR 0x0A] @ ''```''))
        [] (Inl NonErr)) (stripFence reply) = Inr (JArr src)
         \<and> list_all2
               (\<lambda>e r. normalizeEntry (scenario sampleTexts sampleDates
        (claudeReply (''```json'' @ [CHR 0x0A]
           @ ''[{"date":"2024-01-15","shift_type":"Night Shift","hours":"6","job_name":""},{"date":"2024-01-16"}]''
           @ [CHR 0x0A] @ ''```''))
        [] (Inl NonErr)) e = Inr r
                     \<and> truthyOpt (date r) \<and> numTruthy (hours r)
                     \<and> (\<exists>n. ToNumber (scenario sampleTexts sampleDates
        (claudeReply (''```json'' @ [CHR 0x0A]
           @ ''[{"date":"2024-01-15","shift_type":"Night Shift","hours":"6","job_name":""},{"date":"2024-01-16"}]''
           @ [CHR 0x0A] @ ''```''))
        [] (Inl NonErr)) (optProp (Some e) ''hours'') = Inr n
                             \<and> hours r = (if numTruthy n then n else Fin 8)))
               (filter hasDateAndHours src) [\<lparr>date = Some (JStr ''2024-01-15''), shift_type = graveyard, hours = Fin 6,
          job_name = JStr ''Imported'', earnings = None, rest = []\<rparr>])\<close>
proof -
  have run: \<open>parseTimesheetWithAI (scenario sampleTexts sampleDates
        (claudeReply (''```json'' @ [CHR 0x0A]
           @ ''[{"date":"2024-01-15","shift_type":"Night Shift","hours":"6","job_name":""},{"date":"2024-01-16"}]''
           @ [CHR 0x0A] @ ''```''))
        [] (Inl NonErr)) ''k'' None None []
   = (Inr (Success (Entries [\<lparr>date = Some (JStr ''2024-01-15''), shift_type = graveyard, hours = Fin 6,
          job_name = JStr ''Imported'', earnings = None, rest = []\<rparr>])),
      [ClaudePost \<lparr>x_api_key = ''k'', content = [TextPart ''Extract the timesheet entries.'']\<rparr>])\<close>
    by (simp add: primary_reply_timesheet timesheetFromResponse_def extractJSON_def string_evals
          parseJSON_def scenario_simps sampleTexts_def night_shift_entries bindE_def)
  from timesheet_entries_have_date_and_hours [OF run] run show ?thesis by blast
qed

theorem timesheet_earnings_forwarded_witness:
  \<open>parseTimesheetWithAI (scenario sampleTexts sampleDates
        (claudeReply ''[{"date":"2024-01-15","hours":8,"earnings":450},{"date":"2024-01-15","hours":4,"earnings":0}]'')
        [] (Inl NonErr)) ''k'' None None []
   = (Inr (Success (Entries [\<lparr>date = Some (JStr ''2024-01-15''), shift_type = day, hours = Fin 8,
          job_name = JStr ''Imported'', earnings = Some (Fin 450), rest = []\<rparr>,
         \<lparr>date = Some (JStr ''2024-01-15''), shift_type = day, hours = Fin 4,
          job_name = JStr ''Imported'', earnings = None, rest = []\<rparr>])),
      [ClaudePost \<lparr>x_api_key = ''k'', content = [TextPart ''Extract the timesheet entries.'']\<rparr>])
   \<and> (\<exists>reply src.
           (fst (callClaude (scenario sampleTexts sampleDates
        (claudeReply ''[{"date":"2024-01-15","hours":8,"earnings":450},{"date":"2024-01-15","hours":4,"earnings":0}]'')
        [] (Inl NonErr)) ''k'' (timesheetPromptFor (scenario sampleTexts sampleDates
        (claudeReply ''[{"date":"2024-01-15","hours":8,"earnings":450},{"date":"2024-01-15","hours":4,"earnings":0}]'')
        [] (Inl NonErr)) None) None []) = Inr reply
              \<and> fst (timesheetPrimary (scenario sampleTexts sampleDates
        (claudeReply ''[{"date":"2024-01-15","hours":8,"earnings":450},{"date":"2024-01-15","hours":4,"earnings":0}]'')
        [] (Inl NonErr)) ''k'' (timesheetPromptFor (scenario sampleTexts sampleDates
        (claudeReply ''[{"date":"2024-01-15","hours":8,"earnings":450},{"date":"2024-01-15","hours":4,"earnings":0}]'')
        [] (Inl NonErr)) None) None [])
                  = Inr (Success (Entries [\<lparr>date = Some (JStr ''2024-01-15''), shift_type = day, hours = Fin 8,
          job_name = JStr ''Imported'', earnings = Some (Fin 450), rest = []\<rparr>,
         \<lparr>date = Some (JStr ''2024-01-15''), shift_type = day, hours = Fin 4,
          job_name = JStr ''Imported'', earnings = None, rest = []\<rparr>]))
            \<or> (\<exists>error. fst (timesheetPrimary (scenario sampleTexts sampleDates
        (claudeReply ''[{"date":"2024-01-15","hours":8,"earnings":450},{"date":"2024-01-15","hours":4,"earnings":0}]'')
        [] (Inl NonErr)) ''k'' (timesheetPromptFor (scenario sampleTexts sampleDates
        (claudeReply ''[{"date":"2024-01-15","hours":8,"earnings":450},{"date":"2024-01-15","hours":4,"earnings":0}]'')
        [] (Inl NonErr)) None) None [])
                           = Inl error)
              \<and> fst (callGemini (scenario sampleTexts sampleDates
        (claudeReply ''[{"date":"2024-01-15","hours":8,"earnings":450},{"date":"2024-01-15","hours":4,"earnings":0}]'')
        [] (Inl NonErr)) (getGeminiApiKey (scenario sampleTexts sampleDates
        (claudeReply ''[{"date":"2024-01-15","hours":8,"earnings":450},{"date":"2024-01-15","hours":4,"earnings":0}]'')
        [] (Inl NonErr)) None) (timesheetPromptFor (scenario sampleTexts sampleDates
        (claudeReply ''[{"date":"2024-01-15","hours":8,"earnings":450},{"date":"2024-01-15","hours":4,"earnings":0}]'')
        [] (Inl NonErr)) None)
                       None (snd (timesheetPrimary (scenario sampleTexts sampleDates
        (claudeReply ''[{"date":"2024-01-15","hours":8,"earnings":450},{"date":"2024-01-15","hours":4,"earnings":0}]'')
        [] (Inl NonErr)) ''k'' (timesheetPromptFor (scenario sampleTexts sampleDates
        (claudeReply ''[{"date":"2024-01-15","hours":8,"earnings":450},{"date":"2024-01-15","hours":4,"earnings":0}]'')
        [] (Inl NonErr)) None)
                                   None [])))
                  = Inr (JStr reply))
         \<and> JSON_parse (scenario sampleTexts sampleDates
        (claudeReply ''[{"date":"2024-01-15","hours":8,"earnings":450},{"date":"2024-01-15","hours":4,"earnings":0}]'')
        [] (Inl NonErr)) (stripFence reply) = Inr (JArr src)
         \<and> list_all2
               (\<lambda>e r. normalizeEntry (scenario sampleTexts sampleDates
        (claudeReply ''[{"date":"2024-01-15","hours":8,"earnings":450},{"date":"2024-01-15","hours":4,"earnings":0}]'')
        [] (Inl NonErr)) e = Inr r
                     \<and> (\<not> truthyOpt (optProp (Some e) ''earnings'') \<longrightarrow> earnings r = None)
                     \<and> (truthyOpt (optProp (Some e) ''earnings'') \<longrightarrow>
                          (\<exists>n. ToNumber (scenario sampleTexts sampleDates
        (claudeReply ''[{"date":"2024-01-15","hours":8,"earnings":450},{"date":"2024-01-15","hours":4,"earnings":0}]'')
        [] (Inl NonErr)) (optProp (Some e) ''earnings'') = Inr n
                               \<and> earnings r = Some n))
                     \<and> (\<forall>q. optProp (Some e) ''earnings'' = Some (JNum q) \<longrightarrow>
                              earnings r \<noteq> Some (Fin 0)))
               (filter hasDateAndHours src) [\<lparr>date = Some (JStr ''2024-01-15''), shift_type = day, hours = Fin 8,
          job_name = JStr ''Imported'', earnings = Some (Fin 450), rest = []\<rparr>,
         \<lparr>date = Some (JStr ''2024-01-15''), shift_type = day, hours = Fin 4,
          job_name = JStr ''Imported'', earnings = None, rest = []\<rparr>])\<close>
proof -
  have run: \<open>parseTimesheetWithAI (scenario sampleTexts sampleDates
        (claudeReply ''[{"date":"2024-01-15","hours":8,"earnings":450},{"date":"2024-01-15","hours":4,"earnings":0}]'')
        [] (Inl NonErr)) ''k'' None None []
   = (Inr (Success (Entries [\<lparr>date = Some (JStr ''2024-01-15''), shift_type = day, hours = Fin 8,
          job_name = JStr ''Imported'', earnings = Some (Fin 450), rest = []\<rparr>,
         \<lparr>date = Some (JStr ''2024-01-15''), shift_type = day, hours = Fin 4,
          job_name = JStr ''Imported'', earnings = None, rest = []\<rparr>])),
      [ClaudePost \<lparr>x_api_key = ''k'', content = [TextPart ''Extract the timesheet entries.'']\<rparr>])\<close>
    by (simp add: primary_reply_timesheet timesheetFromResponse_def extractJSON_def string_evals
          parseJSON_def scenario_simps sampleTexts_def numeric_earnings_entries bindE_def)
  from timesheet_earnings_forwarded [OF run] run show ?thesis by blast
qed

section \<open>Paystub extraction: properties\<close>

lemma map_of_update_other: "k' \<noteq> k \<Longrightarrow> map_of (AList.update k v kvs) k' = map_of kvs k'"
  by (simp add: update_conv')

lemma map_of_update_same: "map_of (AList.update k v kvs) k = Some v"
  by (simp add: update_conv')

lemma arrayLength_pos: "arrayLength v > 0 \<Longrightarrow> isArray v"
  by (cases v rule: arrayLength.cases) simp_all

lemma paystubFromData_obj:
  "(payDataPresent kvs \<longrightarrow> (\<exists>d. paystubFromData env response (JObj kvs) = Inr (Success (Paystub d))))
   \<and> (\<not> payDataPresent kvs \<longrightarrow>
        paystubFromData env response (JObj kvs) = Inr (Failure (noPayData response)))"
proof -
  define kvs1 where "kvs1 = (case map_of kvs ''total_hours'' of
                              Some th \<Rightarrow>
                                if truthy th \<and> \<not> truthyOpt (map_of kvs ''hours_worked'')
                                then AList.update ''hours_worked'' th kvs else kvs
                            | None \<Rightarrow> kvs)"
  define kvs2 where "kvs2 = (if isArray (map_of kvs1 ''line_items'') then kvs1
                             else AList.update ''line_items'' (JArr []) kvs1)"
  have same1: "map_of kvs1 k = map_of kvs k" if "k \<noteq> ''hours_worked''" for k
    using that by (simp add: kvs1_def map_of_update_other split: option.splits)
  have g: "map_of kvs2 ''gross_pay'' = map_of kvs ''gross_pay''"
    and n: "map_of kvs2 ''net_pay'' = map_of kvs ''net_pay''"
    by (simp_all add: kvs2_def map_of_update_other same1)
  have l: "arrayLength (map_of kvs2 ''line_items'') = arrayLength (map_of kvs ''line_items'')"
  proof (cases "isArray (map_of kvs ''line_items'')")
    case True
    then show ?thesis by (simp add: kvs2_def same1)
  next
    case False
    then have "arrayLength (map_of kvs ''line_items'') = 0"
      using arrayLength_pos by fastforce
    with False show ?thesis by (simp add: kvs2_def same1 map_of_update_same)
  qed
  have test: "(truthyOpt (map_of kvs2 ''gross_pay'') \<or> truthyOpt (map_of kvs2 ''net_pay'')
                \<or> arrayLength (map_of kvs2 ''line_items'') > 0) = payDataPresent kvs"
    by (simp add: g n l payDataPresent_def)
  have "paystubFromData env response (JObj kvs)
          = (if truthyOpt (map_of kvs2 ''gross_pay'') \<or> truthyOpt (map_of kvs2 ''net_pay'')
                \<or> arrayLength (map_of kvs2 ''line_items'') > 0
             then Inr (Success (Paystub (JObj kvs2)))
             else Inr (Failure (noPayData response)))"
    by (simp add: paystubFromData_def Let_def kvs1_def kvs2_def)
  then show ?thesis unfolding test by simp
qed

lemma paystubFromData_success:
  assumes "paystubFromData env response parsed = Inr (Success d)"
  shows "\<exists>kvs. parsed = JObj kvs \<and> payDataPresent kvs"
proof (cases parsed)
  case (JObj kvs)
  with assms show ?thesis using paystubFromData_obj [of kvs env response] by auto
qed (use assms in \<open>simp_all add: paystubFromData_def throwTypeError_def\<close>)

lemma parsePaystub_run:
  "parsePaystubWithClaude env apiKey imageURL calls
     = (case bindE (fst (callClaude env apiKey (paystubPrompt env) (Some imageURL) calls))
               (paystubFromResponse env) of
          Inr r \<Rightarrow> Inr r
        | Inl error \<Rightarrow> Inr (Failure (errorMessage error ''Failed to parse paystub'')),
        snd (callClaude env apiKey (paystubPrompt env) (Some imageURL) calls))"
  by (simp add: parsePaystubWithClaude_def tryCatch_def bindIO_def liftE_def pureIO_def bindE_def
        callClaude_run split: sum.splits)

text \<open>
  C4, as amended. \<open>parsePaystubWithClaude\<close> returns success exactly when the primary
  service returns a reply whose text, stripped of its fence and cut to its braces, parses
  to an object that has a truthy \<open>gross_pay\<close>, a truthy \<open>net_pay\<close> or a non-empty array
  \<open>line_items\<close>; a field that is there with the value 0 does not count. When the reply
  parses to an object without any of the three, the failure carries the text
  \<open>No pay data found. Claude returned: \<close> followed by the first 200 characters of the
  reply. When the call throws an error, the failure carries the message of that error.
\<close>

theorem paystub_success_iff:
  "((\<exists>d. fst (parsePaystubWithClaude env apiKey imageURL calls) = Inr (Success d))
      \<longleftrightarrow> (\<exists>r kvs. fst (callClaude env apiKey (paystubPrompt env) (Some imageURL) calls) = Inr r
                   \<and> JSON_parse env (jsonObjectText (stripFence r)) = Inr (JObj kvs)
                   \<and> payDataPresent kvs))
   \<and> (fst (callClaude env apiKey (paystubPrompt env) (Some imageURL) calls) = Inr r
        \<and> JSON_parse env (jsonObjectText (stripFence r)) = Inr (JObj kvs)
        \<and> \<not> payDataPresent kvs
      \<longrightarrow> fst (parsePaystubWithClaude env apiKey imageURL calls)
            = Inr (Failure (''No pay data found. Claude returned: '' @ take 200 r)))
   \<and> (fst (callClaude env apiKey (paystubPrompt env) (Some imageURL) calls) = Inl (Err m)
      \<longrightarrow> fst (parsePaystubWithClaude env apiKey imageURL calls) = Inr (Failure m))"
proof (intro conjI impI iffI)
  assume "\<exists>d. fst (parsePaystubWithClaude env apiKey imageURL calls) = Inr (Success d)"
  then obtain d r where r: "fst (callClaude env apiKey (paystubPrompt env) (Some imageURL) calls) = Inr r"
    and d: "paystubFromResponse env r = Inr (Success d)"
    by (auto simp add: parsePaystub_run bindE_def split: sum.splits)
  from d obtain parsed where p: "JSON_parse env (jsonObjectText (stripFence r)) = Inr parsed"
    and f: "paystubFromData env r parsed = Inr (Success d)"
    by (auto simp add: paystubFromResponse_def parseJSON_def bindE_Inr split: sum.splits)
  from paystubFromData_success [OF f] p r
  show "\<exists>r kvs. fst (callClaude env apiKey (paystubPrompt env) (Some imageURL) calls) = Inr r
                \<and> JSON_parse env (jsonObjectText (stripFence r)) = Inr (JObj kvs)
                \<and> payDataPresent kvs"
    by blast
next
  assume "\<exists>r kvs. fst (callClaude env apiKey (paystubPrompt env) (Some imageURL) calls) = Inr r
                \<and> JSON_parse env (jsonObjectText (stripFence r)) = Inr (JObj kvs)
                \<and> payDataPresent kvs"
  then obtain r kvs where r: "fst (callClaude env apiKey (paystubPrompt env) (Some imageURL) calls) = Inr r"
    and p: "JSON_parse env (jsonObjectText (stripFence r)) = Inr (JObj kvs)"
    and k: "payDataPresent kvs"
    by blast
  from k obtain d where "paystubFromData env r (JObj kvs) = Inr (Success (Paystub d))"
    using paystubFromData_obj [of kvs env r] by blast
  with r p have "fst (parsePaystubWithClaude env apiKey imageURL calls) = Inr (Success (Paystub d))"
    by (simp add: parsePaystub_run paystubFromResponse_def parseJSON_def bindE_def)
  then show "\<exists>d. fst (parsePaystubWithClaude env apiKey imageURL calls) = Inr (Success d)"
    by blast
next
  assume "fst (callClaude env apiKey (paystubPrompt env) (Some imageURL) calls) = Inr r
            \<and> JSON_parse env (jsonObjectText (stripFence r)) = Inr (JObj kvs)
            \<and> \<not> payDataPresent kvs"
  then show "fst (parsePaystubWithClaude env apiKey imageURL calls)
               = Inr (Failure (''No pay data found. Claude returned: '' @ take 200 r))"
    using paystubFromData_obj [of kvs env r]
    by (simp add: parsePaystub_run paystubFromResponse_def parseJSON_def bindE_def noPayData_def)
next
  assume "fst (callClaude env apiKey (paystubPrompt env) (Some imageURL) calls) = Inl (Err m)"
  then show "fst (parsePaystubWithClaude env apiKey imageURL calls) = Inr (Failure m)"
    by (simp add: parsePaystub_run bindE_def)
qed

lemma claudeContent_png:
  "claudeContent prompt (Some ''data:image/png;base64,AAAA'')
     = [ImagePart ''image/png'' ''AAAA'', TextPart prompt]"
  by (simp add: claudeContent_def parseDataURL_def indexOf_def substring_def substringFrom_def)

lemma geminiParts_png:
  "geminiParts prompt (Some ''data:image/png;base64,AAAA'')
     = [InlineData ''image/png'' ''AAAA'', TextOnly prompt]"
  by (simp add: geminiParts_def parseDataURL_def indexOf_def substring_def substringFrom_def)

lemma callClaude_reply:
  "callClaude (scenario J D (claudeReply t) K B) apiKey prompt img calls
     = (Inr t, calls @ [ClaudePost \<lparr>x_api_key = apiKey, content = claudeContent prompt img\<rparr>])"
  by (simp add: callClaude_run scenario_simps claudeReply_def claudeText_reply bindE_def)


lemma callClaude_unauthorized:
  "callClaude (scenario J D (Inr \<lparr>status = 401,
               response_data = JObj [(''error'', JObj [(''message'', JStr ''invalid x-api-key'')])]\<rparr>) K B) apiKey prompt img calls
     = (Inl (Err ''invalid x-api-key''),
        calls @ [ClaudePost \<lparr>x_api_key = apiKey, content = claudeContent prompt img\<rparr>])"
  by (simp add: callClaude_run scenario_simps claudeText_def bindE_def)

lemma zero_pay_text: \<open>jsonObjectText (stripFence ''{"gross_pay":0,"net_pay":0,"line_items":[]}'') = ''{"gross_pay":0,"net_pay":0,"line_items":[]}''\<close>
  by (simp add: jsonObjectText_def matchBraces_def string_evals)

lemma pay_text: \<open>jsonObjectText (stripFence ''{"gross_pay":1200,"net_pay":950,"total_hours":40}'') = ''{"gross_pay":1200,"net_pay":950,"total_hours":40}''\<close>
  by (simp add: jsonObjectText_def matchBraces_def string_evals)

text \<open>
  C4 as stated fails. A reply whose object has \<open>gross_pay\<close> and \<open>net_pay\<close>, both 0,
  is answered with the failure, though both fields are present. And when the service
  answers 401 the failure carries the message of the service: there is no reply of the
  model to quote.
\<close>

theorem zero_gross_pay_counterexample:
  \<open>parsePaystubWithClaude
     (scenario sampleTexts sampleDates (claudeReply ''{"gross_pay":0,"net_pay":0,"line_items":[]}'') [] (Inl NonErr))
     ''k'' ''data:image/png;base64,AAAA'' []
   = (Inr (Failure
        ''No pay data found. Claude returned: {"gross_pay":0,"net_pay":0,"line_items":[]}''),
      [ClaudePost \<lparr>x_api_key = ''k'',
                   content = [ImagePart ''image/png'' ''AAAA'', TextPart ''Extract the paystub.'']\<rparr>])
   \<and> JSON_parse (scenario sampleTexts sampleDates (claudeReply ''{"gross_pay":0,"net_pay":0,"line_items":[]}'') [] (Inl NonErr))
       (jsonObjectText (stripFence ''{"gross_pay":0,"net_pay":0,"line_items":[]}''))
     = Inr (JObj [(''gross_pay'', JNum (Fin 0)), (''net_pay'', JNum (Fin 0)), (''line_items'', JArr [])])
   \<and> parsePaystubWithClaude
       (scenario sampleTexts sampleDates (Inr \<lparr>status = 401,
               response_data = JObj [(''error'', JObj [(''message'', JStr ''invalid x-api-key'')])]\<rparr>) [] (Inl NonErr))
       ''k'' ''data:image/png;base64,AAAA'' []
     = (Inr (Failure ''invalid x-api-key''),
        [ClaudePost \<lparr>x_api_key = ''k'',
                   content = [ImagePart ''image/png'' ''AAAA'', TextPart ''Extract the paystub.'']\<rparr>])\<close>
proof (intro conjI)
  show \<open>parsePaystubWithClaude
     (scenario sampleTexts sampleDates (claudeReply ''{"gross_pay":0,"net_pay":0,"line_items":[]}'') [] (Inl NonErr))
     ''k'' ''data:image/png;base64,AAAA'' []
   = (Inr (Failure
        ''No pay data found. Claude returned: {"gross_pay":0,"net_pay":0,"line_items":[]}''),
      [ClaudePost \<lparr>x_api_key = ''k'',
                   content = [ImagePart ''image/png'' ''AAAA'', TextPart ''Extract the paystub.'']\<rparr>])\<close>
    by (simp add: parsePaystub_run callClaude_reply claudeContent_png scenario_simps
          paystubFromResponse_def zero_pay_text parseJSON_def sampleTexts_def paystubFromData_def
          noPayData_def bindE_def)
  show \<open>JSON_parse (scenario sampleTexts sampleDates (claudeReply ''{"gross_pay":0,"net_pay":0,"line_items":[]}'') [] (Inl NonErr))
       (jsonObjectText (stripFence ''{"gross_pay":0,"net_pay":0,"line_items":[]}''))
     = Inr (JObj [(''gross_pay'', JNum (Fin 0)), (''net_pay'', JNum (Fin 0)), (''line_items'', JArr [])])\<close>
    by (simp add: zero_pay_text scenario_simps sampleTexts_def)
  show \<open>parsePaystubWithClaude
       (scenario sampleTexts sampleDates (Inr \<lparr>status = 401,
               response_data = JObj [(''error'', JObj [(''message'', JStr ''invalid x-api-key'')])]\<rparr>) [] (Inl NonErr))
       ''k'' ''data:image/png;base64,AAAA'' []
     = (Inr (Failure ''invalid x-api-key''),
        [ClaudePost \<lparr>x_api_key = ''k'',
                   content = [ImagePart ''image/png'' ''AAAA'', TextPart ''Extract the paystub.'']\<rparr>])\<close>
    by (simp add: parsePaystub_run callClaude_unauthorized claudeContent_png scenario_simps bindE_def)
qed

theorem paystub_success_iff_witness:
  \<open>payDataPresent [(''gross_pay'', JNum (Fin 1200)), (''net_pay'', JNum (Fin 950)),
               (''total_hours'', JNum (Fin 40))]
   \<and> (\<exists>d. fst (parsePaystubWithClaude
                 (scenario sampleTexts sampleDates (claudeReply ''{"gross_pay":1200,"net_pay":950,"total_hours":40}'') [] (Inl NonErr))
                 ''k'' ''data:image/png;base64,AAAA'' []) = Inr (Success d))
   \<and> \<not> payDataPresent [(''gross_pay'', JNum (Fin 0)), (''net_pay'', JNum (Fin 0)), (''line_items'', JArr [])]
   \<and> fst (parsePaystubWithClaude
            (scenario sampleTexts sampleDates (claudeReply ''{"gross_pay":0,"net_pay":0,"line_items":[]}'') [] (Inl NonErr))
            ''k'' ''data:image/png;base64,AAAA'' [])
     = Inr (Failure (''No pay data found. Claude returned: '' @ take 200 ''{"gross_pay":0,"net_pay":0,"line_items":[]}''))
   \<and> fst (parsePaystubWithClaude
            (scenario sampleTexts sampleDates (Inr \<lparr>status = 401,
               response_data = JObj [(''error'', JObj [(''message'', JStr ''invalid x-api-key'')])]\<rparr>) [] (Inl NonErr))
            ''k'' ''data:image/png;base64,AAAA'' [])
     = Inr (Failure ''invalid x-api-key'')\<close>
proof -
  let ?img = "''data:image/png;base64,AAAA''"
  let ?env = \<open>scenario sampleTexts sampleDates (claudeReply ''{"gross_pay":1200,"net_pay":950,"total_hours":40}'') [] (Inl NonErr)\<close>
  have r: \<open>fst (callClaude ?env ''k'' (paystubPrompt ?env) (Some ?img) []) = Inr ''{"gross_pay":1200,"net_pay":950,"total_hours":40}''\<close>
    by (simp add: callClaude_reply)
  have p: \<open>JSON_parse ?env (jsonObjectText (stripFence ''{"gross_pay":1200,"net_pay":950,"total_hours":40}'')) = Inr (JObj [(''gross_pay'', JNum (Fin 1200)), (''net_pay'', JNum (Fin 950)),
               (''total_hours'', JNum (Fin 40))])\<close>
    by (simp add: pay_text scenario_simps sampleTexts_def)
  have k: "payDataPresent [(''gross_pay'', JNum (Fin 1200)), (''net_pay'', JNum (Fin 950)),
               (''total_hours'', JNum (Fin 40))]"
    by (simp add: payDataPresent_def)
  have first: "\<exists>d. fst (parsePaystubWithClaude ?env ''k'' ?img []) = Inr (Success d)"
    using paystub_success_iff [where env = ?env and apiKey = "''k''" and imageURL = ?img
                                 and calls = "[]"]
          r p k
    by blast
  let ?envF = \<open>scenario sampleTexts sampleDates (claudeReply ''{"gross_pay":0,"net_pay":0,"line_items":[]}'') [] (Inl NonErr)\<close>
  have rF: \<open>fst (callClaude ?envF ''k'' (paystubPrompt ?envF) (Some ?img) []) = Inr ''{"gross_pay":0,"net_pay":0,"line_items":[]}''\<close>
    by (simp add: callClaude_reply)
  have pF: \<open>JSON_parse ?envF (jsonObjectText (stripFence ''{"gross_pay":0,"net_pay":0,"line_items":[]}'')) = Inr (JObj [(''gross_pay'', JNum (Fin 0)), (''net_pay'', JNum (Fin 0)), (''line_items'', JArr [])])\<close>
    by (simp add: zero_pay_text scenario_simps sampleTexts_def)
  have kF: "\<not> payDataPresent [(''gross_pay'', JNum (Fin 0)), (''net_pay'', JNum (Fin 0)), (''line_items'', JArr [])]"
    by (simp add: payDataPresent_def)
  have second: \<open>fst (parsePaystubWithClaude ?envF ''k'' ?img [])
                  = Inr (Failure (''No pay data found. Claude returned: '' @ take 200 ''{"gross_pay":0,"net_pay":0,"line_items":[]}''))\<close>
    using paystub_success_iff [where env = ?envF and apiKey = "''k''" and imageURL = ?img
                                 and calls = "[]" and r = \<open>''{"gross_pay":0,"net_pay":0,"line_items":[]}''\<close> and kvs = "[(''gross_pay'', JNum (Fin 0)), (''net_pay'', JNum (Fin 0)), (''line_items'', JArr [])]"]
          rF pF kF
    by blast
  let ?envU = "scenario sampleTexts sampleDates (Inr \<lparr>status = 401,
               response_data = JObj [(''error'', JObj [(''message'', JStr ''invalid x-api-key'')])]\<rparr>) [] (Inl NonErr)"
  have e: "fst (callClaude ?envU ''k'' (paystubPrompt ?envU) (Some ?img) [])
             = Inl (Err ''invalid x-api-key'')"
    by (simp add: callClaude_unauthorized)
  have third: "fst (parsePaystubWithClaude ?envU ''k'' ?img []) = Inr (Failure ''invalid x-api-key'')"
    using paystub_success_iff [where env = ?envU and apiKey = "''k''" and imageURL = ?img
                                 and calls = "[]" and m = "''invalid x-api-key''"]
          e
    by blast
  show ?thesis using k first kF second third by blast
qed

section \<open>Stat-schedule extraction: properties\<close>




lemma scheduleFromData_error:
  "map_of kvs ''error'' = Some e \<Longrightarrow> truthy e \<Longrightarrow>
     scheduleFromData env (JObj kvs) = Inr (ScheduleFailure e)"
  by (simp add: scheduleFromData_def bindE_def)

lemma scheduleFromData_invalid:
  assumes "\<not> truthyOpt (map_of kvs ''error'')"
    and "\<not> truthyOpt (map_of kvs ''year'') \<or> \<not> isArray (map_of kvs ''holidays'')"
  shows "scheduleFromData env (JObj kvs) = Inr (ScheduleFailure (JStr ''Invalid data format''))"
proof -
  have "(case (map_of kvs ''year'', map_of kvs ''holidays'') of
           (Some y, Some (JArr hs)) \<Rightarrow>
             if \<not> truthy y then Inr (ScheduleFailure (JStr ''Invalid data format''))
             else bindE (filterE (validHoliday env) hs) (\<lambda>validHolidays.
                    if length validHolidays = 0
                    then Inr (ScheduleFailure (JStr ''No valid holidays found''))
                    else Inr (ScheduleSuccess y validHolidays))
         | other \<Rightarrow> Inr (ScheduleFailure (JStr ''Invalid data format'')))
        = Inr (ScheduleFailure (JStr ''Invalid data format''))"
    using assms(2)
    by (cases "map_of kvs ''year''"; cases "map_of kvs ''holidays''" rule: isArray.cases) auto
  with assms(1) show ?thesis
    by (simp add: scheduleFromData_def bindE_def)
qed


lemma schedulePrimary_fst:
  "fst (schedulePrimary env apiKey prompt imageURL calls)
     = bindE (fst (callClaude env apiKey prompt (Some imageURL) calls))
         (\<lambda>response. scheduleFromResponse env (JStr response))"
  by (simp add: schedulePrimary_run callClaude_run)

lemma parseStatSchedule_fst:
  "fst (parseStatScheduleWithAI env apiKey imageURL calls)
     = (case fst (schedulePrimary env apiKey (statSchedulePrompt env) imageURL calls) of
          Inr r \<Rightarrow> Inr r
        | Inl error \<Rightarrow>
            (case fst (scheduleBackup env (statSchedulePrompt env) imageURL
                         (snd (schedulePrimary env apiKey (statSchedulePrompt env) imageURL calls))) of
               Inr r \<Rightarrow> Inr r
             | Inl geminiError \<Rightarrow>
                 Inr (ScheduleFailure (JStr (errorMessage error ''Failed to parse stat schedule'')))))"
  by (simp add: parseStatScheduleWithAI_def Let_def tryCatch_def pureIO_def
        split: prod.splits sum.splits)










section \<open>The boundary of the public operations\<close>

lemma scheduleFromData_failure:
  assumes "scheduleFromData env parsed = Inr (ScheduleFailure v)"
  shows "(\<exists>m. v = JStr m) \<or> (\<exists>kvs. parsed = JObj kvs \<and> map_of kvs ''error'' = Some v \<and> truthy v)"
proof (cases parsed)
  case (JObj kvs)
  show ?thesis
  proof (cases "truthyOpt (map_of kvs ''error'')")
    case True
    then obtain e where e: "map_of kvs ''error'' = Some e" "truthy e"
      by (cases "map_of kvs ''error''") auto
    with assms JObj have "v = e" by (simp add: scheduleFromData_error)
    with e JObj show ?thesis by simp
  next
    case False
    show ?thesis
    proof (cases "\<not> truthyOpt (map_of kvs ''year'') \<or> \<not> isArray (map_of kvs ''holidays'')")
      case True
      with False assms JObj show ?thesis by (auto simp add: scheduleFromData_invalid)
    next
      case False
      then obtain y hs where "map_of kvs ''year'' = Some y" "truthy y"
        "map_of kvs ''holidays'' = Some (JArr hs)"
        by (cases "map_of kvs ''year''"; cases "map_of kvs ''holidays''" rule: isArray.cases) auto
      with \<open>\<not> truthyOpt (map_of kvs ''error'')\<close> assms JObj show ?thesis
        by (auto simp add: scheduleFromData_def bindE_def split: sum.splits if_splits)
    qed
  qed
qed (use assms in \<open>auto simp add: scheduleFromData_def bindE_def throwTypeError_def\<close>)

lemma scheduleFromResponse_failure:
  assumes "scheduleFromResponse env response = Inr (ScheduleFailure v)"
  shows "(\<exists>m. v = JStr m)
         \<or> (\<exists>reply kvs. response = JStr reply
               \<and> JSON_parse env (jsonObjectText (stripFence reply)) = Inr (JObj kvs)
               \<and> map_of kvs ''error'' = Some v \<and> truthy v)"
proof -
  from assms obtain jsonStr parsed where x: "extractJSON env response = Inr jsonStr"
    and p: "parseJSON env (jsonObjectText jsonStr) = Inr parsed"
    and d: "scheduleFromData env parsed = Inr (ScheduleFailure v)"
    by (auto simp add: scheduleFromResponse_def bindE_Inr)
  from x obtain reply where reply: "response = JStr reply" and j: "jsonStr = stripFence reply"
    by (cases response) (auto simp add: extractJSON_def throwTypeError_def)
  from p j have "JSON_parse env (jsonObjectText (stripFence reply)) = Inr parsed"
    by (auto simp add: parseJSON_def split: sum.splits)
  with scheduleFromData_failure [OF d] reply show ?thesis by auto
qed

lemma scheduleBackup_fst:
  "fst (scheduleBackup env prompt imageURL calls)
     = (if getGeminiApiKey env None = [] then Inl (Err ''No Gemini API key available'')
        else bindE (fst (callGemini env (getGeminiApiKey env None) prompt (Some imageURL) calls))
               (scheduleFromResponse env))"
  by (simp add: scheduleBackup_run callGemini_run)

text \<open>
  C6, as amended. Whatever the environment does, each of the three operations returns a
  value of its result type, success or failure, and throws nothing. The failure of the
  timesheet and of the paystub operation carries a message string; the failure of the
  stat-schedule operation carries a message string, or else the truthy value the model's
  reply holds under \<open>error\<close>, returned as the model sent it.
\<close>

theorem operations_never_throw:
  "(\<exists>r c. parseTimesheetWithAI env apiKey textContent img calls = (Inr r, c)
           \<and> ((\<exists>d. r = Success d) \<or> (\<exists>m. r = Failure m)))
   \<and> (\<exists>r c. parsePaystubWithClaude env apiKey imageURL calls = (Inr r, c)
           \<and> ((\<exists>d. r = Success d) \<or> (\<exists>m. r = Failure m)))
   \<and> (\<exists>r c. parseStatScheduleWithAI env apiKey imageURL calls = (Inr r, c)
           \<and> ((\<exists>y hs. r = ScheduleSuccess y hs) \<or> (\<exists>v. r = ScheduleFailure v)))
   \<and> (\<forall>v c. parseStatScheduleWithAI env apiKey imageURL calls = (Inr (ScheduleFailure v), c) \<longrightarrow>
          (\<exists>m. v = JStr m)
          \<or> (\<exists>reply kvs.
                 (fst (callClaude env apiKey (statSchedulePrompt env) (Some imageURL) calls) = Inr reply
                  \<or> fst (callGemini env (getGeminiApiKey env None) (statSchedulePrompt env)
                           (Some imageURL)
                           (snd (schedulePrimary env apiKey (statSchedulePrompt env) imageURL calls)))
                      = Inr (JStr reply))
                 \<and> JSON_parse env (jsonObjectText (stripFence reply)) = Inr (JObj kvs)
                 \<and> map_of kvs ''error'' = Some v \<and> truthy v))"
proof (intro conjI allI impI)
  have "\<exists>r. fst (parseTimesheetWithAI env apiKey textContent img calls) = Inr r"
    by (simp add: parseTimesheet_fst split: sum.splits)
  then obtain r where r: "fst (parseTimesheetWithAI env apiKey textContent img calls) = Inr r"
    by blast
  have "(\<exists>d. r = Success d) \<or> (\<exists>m. r = Failure m)" by (cases r) auto
  with r show "\<exists>r c. parseTimesheetWithAI env apiKey textContent img calls = (Inr r, c)
                 \<and> ((\<exists>d. r = Success d) \<or> (\<exists>m. r = Failure m))"
    by (metis prod.collapse)
next
  have "\<exists>r. fst (parsePaystubWithClaude env apiKey imageURL calls) = Inr r"
    by (simp add: parsePaystub_run split: sum.splits)
  then obtain r where r: "fst (parsePaystubWithClaude env apiKey imageURL calls) = Inr r"
    by blast
  have "(\<exists>d. r = Success d) \<or> (\<exists>m. r = Failure m)" by (cases r) auto
  with r show "\<exists>r c. parsePaystubWithClaude env apiKey imageURL calls = (Inr r, c)
                 \<and> ((\<exists>d. r = Success d) \<or> (\<exists>m. r = Failure m))"
    by (metis prod.collapse)
next
  have "\<exists>r. fst (parseStatScheduleWithAI env apiKey imageURL calls) = Inr r"
    by (simp add: parseStatSchedule_fst split: sum.splits)
  then obtain r where r: "fst (parseStatScheduleWithAI env apiKey imageURL calls) = Inr r"
    by blast
  have "(\<exists>y hs. r = ScheduleSuccess y hs) \<or> (\<exists>v. r = ScheduleFailure v)" by (cases r) auto
  with r show "\<exists>r c. parseStatScheduleWithAI env apiKey imageURL calls = (Inr r, c)
                 \<and> ((\<exists>y hs. r = ScheduleSuccess y hs) \<or> (\<exists>v. r = ScheduleFailure v))"
    by (metis prod.collapse)
next
  fix v c
  assume run: "parseStatScheduleWithAI env apiKey imageURL calls = (Inr (ScheduleFailure v), c)"
  let ?primary = "schedulePrimary env apiKey (statSchedulePrompt env) imageURL calls"
  from run have res: "fst (parseStatScheduleWithAI env apiKey imageURL calls)
                        = Inr (ScheduleFailure v)"
    by simp
  show "(\<exists>m. v = JStr m)
          \<or> (\<exists>reply kvs.
                 (fst (callClaude env apiKey (statSchedulePrompt env) (Some imageURL) calls) = Inr reply
                  \<or> fst (callGemini env (getGeminiApiKey env None) (statSchedulePrompt env)
                           (Some imageURL)
                           (snd (schedulePrimary env apiKey (statSchedulePrompt env) imageURL calls)))
                      = Inr (JStr reply))
                 \<and> JSON_parse env (jsonObjectText (stripFence reply)) = Inr (JObj kvs)
                 \<and> map_of kvs ''error'' = Some v \<and> truthy v)"
  proof (cases "fst ?primary")
    case (Inr r)
    with res have "fst ?primary = Inr (ScheduleFailure v)"
      by (simp add: parseStatSchedule_fst)
    then obtain reply where
      c: "fst (callClaude env apiKey (statSchedulePrompt env) (Some imageURL) calls) = Inr reply"
      and f: "scheduleFromResponse env (JStr reply) = Inr (ScheduleFailure v)"
      by (auto simp add: schedulePrimary_fst bindE_Inr)
    from scheduleFromResponse_failure [OF f] c show ?thesis by auto
  next
    case (Inl error)
    show ?thesis
    proof (cases "fst (scheduleBackup env (statSchedulePrompt env) imageURL (snd ?primary))")
      case (Inl geminiError)
      with \<open>fst ?primary = Inl error\<close> res show ?thesis
        by (auto simp add: parseStatSchedule_fst)
    next
      case (Inr r)
      with \<open>fst ?primary = Inl error\<close> res
      have "fst (scheduleBackup env (statSchedulePrompt env) imageURL (snd ?primary))
              = Inr (ScheduleFailure v)"
        by (simp add: parseStatSchedule_fst)
      then obtain response where
        g: "fst (callGemini env (getGeminiApiKey env None) (statSchedulePrompt env)
                   (Some imageURL) (snd ?primary)) = Inr response"
        and f: "scheduleFromResponse env response = Inr (ScheduleFailure v)"
        by (auto simp add: scheduleBackup_fst bindE_Inr split: if_splits)
      from scheduleFromResponse_failure [OF f] g show ?thesis by auto
    qed
  qed
qed

text \<open>
  C6 as stated fails: the reply \<open>{"error":42}\<close> is answered with a failure whose
  \<open>error\<close> is the number 42, not a message string.
\<close>

theorem non_string_error_counterexample:
  \<open>parseStatScheduleWithAI
     (scenario sampleTexts sampleDates (claudeReply ''{"error":42}'') [] (Inl NonErr))
     ''k'' ''data:image/png;base64,AAAA'' []
   = (Inr (ScheduleFailure (JNum (Fin 42))),
      [ClaudePost \<lparr>x_api_key = ''k'',
                   content = [ImagePart ''image/png'' ''AAAA'',
                              TextPart ''Extract the stat holiday schedule.'']\<rparr>])\<close>
proof -
  have t: \<open>jsonObjectText (stripFence ''{"error":42}'') = ''{"error":42}''\<close>
    by (simp add: jsonObjectText_def matchBraces_def string_evals)
  have \<open>scheduleFromResponse (scenario sampleTexts sampleDates (claudeReply ''{"error":42}'') [] (Inl NonErr))
          (JStr ''{"error":42}'') = Inr (ScheduleFailure (JNum (Fin 42)))\<close>
    by (simp add: scheduleFromResponse_def extractJSON_def t parseJSON_def scenario_simps
          sampleTexts_def scheduleFromData_def bindE_def)
  then show ?thesis
    by (simp add: parseStatScheduleWithAI_def Let_def tryCatch_def schedulePrimary_def bindIO_def
          liftE_def callClaude_reply claudeContent_png scenario_simps)
qed

theorem operations_never_throw_witness:
  \<open>parseStatScheduleWithAI
     (scenario [] [] (Inl (Err ''primary down'')) ''backup-key'' (Inl (Err ''backup down'')))
     ''k'' ''data:image/png;base64,AAAA'' []
   = (Inr (ScheduleFailure (JStr ''primary down'')),
      [ClaudePost \<lparr>x_api_key = ''k'',
                   content = [ImagePart ''image/png'' ''AAAA'',
                              TextPart ''Extract the stat holiday schedule.'']\<rparr>,
       GeminiFetch \<lparr>key = ''backup-key'',
                    parts = [InlineData ''image/png'' ''AAAA'',
                             TextOnly ''Extract the stat holiday schedule.'']\<rparr>])
   \<and> ((\<exists>m. JStr ''primary down'' = JStr m)
        \<or> (\<exists>reply kvs.
                 (fst (callClaude (scenario [] [] (Inl (Err ''primary down'')) ''backup-key'' (Inl (Err ''backup down''))) ''k'' (statSchedulePrompt (scenario [] [] (Inl (Err ''primary down'')) ''backup-key'' (Inl (Err ''backup down'')))) (Some ''data:image/png;base64,AAAA'') []) = Inr reply
                  \<or> fst (callGemini (scenario [] [] (Inl (Err ''primary down'')) ''backup-key'' (Inl (Err ''backup down''))) (getGeminiApiKey (scenario [] [] (Inl (Err ''primary down'')) ''backup-key'' (Inl (Err ''backup down''))) None) (statSchedulePrompt (scenario [] [] (Inl (Err ''primary down'')) ''backup-key'' (Inl (Err ''backup down''))))
                           (Some ''data:image/png;base64,AAAA'')
                           (snd (schedulePrimary (scenario [] [] (Inl (Err ''primary down'')) ''backup-key'' (Inl (Err ''backup down''))) ''k'' (statSchedulePrompt (scenario [] [] (Inl (Err ''primary down'')) ''backup-key'' (Inl (Err ''backup down'')))) ''data:image/png;base64,AAAA'' [])))
                      = Inr (JStr reply))
                 \<and> JSON_parse (scenario [] [] (Inl (Err ''primary down'')) ''backup-key'' (Inl (Err ''backup down''))) (jsonObjectText (stripFence reply)) = Inr (JObj kvs)
                 \<and> map_of kvs ''error'' = Some (JStr ''primary down'') \<and> truthy (JStr ''primary down'')))\<close>
proof -
  let ?env = "scenario [] [] (Inl (Err ''primary down'')) ''backup-key'' (Inl (Err ''backup down''))"
  have run: "parseStatScheduleWithAI ?env ''k'' ''data:image/png;base64,AAAA'' []
   = (Inr (ScheduleFailure (JStr ''primary down'')),
      [ClaudePost \<lparr>x_api_key = ''k'',
                   content = [ImagePart ''image/png'' ''AAAA'',
                              TextPart ''Extract the stat holiday schedule.'']\<rparr>,
       GeminiFetch \<lparr>key = ''backup-key'',
                    parts = [InlineData ''image/png'' ''AAAA'',
                             TextOnly ''Extract the stat holiday schedule.'']\<rparr>])"
    by (simp add: parseStatScheduleWithAI_def Let_def tryCatch_def pureIO_def schedulePrimary_run
          scheduleBackup_run claudeContent_png geminiParts_png getGeminiApiKey_None
          scenario_simps bindE_def)
  from operations_never_throw [where env = ?env and apiKey = "''k''" and imageURL = "''data:image/png;base64,AAAA''"
                                 and calls = "[]"]
  have "\<forall>v c. parseStatScheduleWithAI ?env ''k'' ''data:image/png;base64,AAAA'' [] = (Inr (ScheduleFailure v), c) \<longrightarrow>
          (\<exists>m. v = JStr m)
          \<or> (\<exists>reply kvs.
                 (fst (callClaude ?env ''k'' (statSchedulePrompt ?env) (Some ''data:image/png;base64,AAAA'') []) = Inr reply
                  \<or> fst (callGemini ?env (getGeminiApiKey ?env None) (statSchedulePrompt ?env)
                           (Some ''data:image/png;base64,AAAA'')
                           (snd (schedulePrimary ?env ''k'' (statSchedulePrompt ?env) ''data:image/png;base64,AAAA'' [])))
                      = Inr (JStr reply))
                 \<and> JSON_parse ?env (jsonObjectText (stripFence reply)) = Inr (JObj kvs)
                 \<and> map_of kvs ''error'' = Some v \<and> truthy v)"
    by blast
  with run show ?thesis by blast
qed

end
